theory Spec2Isabelle
  imports Complex_Main "HOL-Library.AList"
begin

section \<open>Characters and strings\<close>

text \<open>
  Python strings are sequences of code points. The model uses \<open>string\<close>, that is lists
  of 8-bit characters, read as the code points 0..255 (ASCII and Latin-1). The character
  classes below follow Python's \<open>str.isalnum\<close>, \<open>str.isspace\<close> and \<open>str.lower\<close>
  on that range.
\<close>

definition isalnum :: "char \<Rightarrow> bool" where
  "isalnum c = (let n = (of_char c :: nat) in
     (48 \<le> n \<and> n \<le> 57) \<or> (65 \<le> n \<and> n \<le> 90) \<or> (97 \<le> n \<and> n \<le> 122)
     \<or> n = 170 \<or> n = 178 \<or> n = 179 \<or> n = 181 \<or> n = 185 \<or> n = 186
     \<or> (188 \<le> n \<and> n \<le> 190) \<or> (192 \<le> n \<and> n \<le> 214)
     \<or> (216 \<le> n \<and> n \<le> 246) \<or> (248 \<le> n \<and> n \<le> 255))"

definition BACKSLASH :: char where
  "BACKSLASH = CHR 0x5C"

section \<open>Beautifier: markdown parsing\<close>

text \<open>A styled run: the dictionary \<open>{"text": ..., "bold": ..., "italic": ...}\<close>.\<close>

record run =
  run_text :: string
  bold :: bool
  italic :: bool

definition MD_BOLD :: string where
  "MD_BOLD = ''**''"

definition MD_ITALIC :: string where
  "MD_ITALIC = ''*''"

text \<open>\<open>_is_boundary(text, idx)\<close>.\<close>

definition is_boundary :: "string \<Rightarrow> nat \<Rightarrow> bool" where
  "is_boundary txt idx =
     (if idx \<le> 0 \<or> idx \<ge> length txt then True
      else \<not> (isalnum (txt ! (idx - 1)) \<and> isalnum (txt ! idx)))"

text \<open>\<open>s.startswith(p, i)\<close>.\<close>

definition startswith :: "string \<Rightarrow> string \<Rightarrow> nat \<Rightarrow> bool" where
  "startswith s p i = (take (length p) (drop i s) = p)"

text \<open>
  The local variables of \<open>parse_markdown\<close> that its loop and the closure \<open>flush\<close>
  update: \<open>runs\<close>, \<open>bold_on\<close>, \<open>italic_on\<close> and \<open>buf\<close>.
\<close>

record pstate =
  runs :: "run list"
  bold_on :: bool
  italic_on :: bool
  buf :: string

definition flush :: "pstate \<Rightarrow> pstate" where
  "flush st =
     (if buf st = [] then st
      else st\<lparr>runs := runs st @ [\<lparr>run_text = buf st, bold = bold_on st, italic = italic_on st\<rparr>],
              buf := []\<rparr>)"

text \<open>The \<open>while i < n\<close> loop of \<open>parse_markdown\<close>, from index \<open>i\<close>.\<close>

function scan :: "string \<Rightarrow> nat \<Rightarrow> pstate \<Rightarrow> pstate" where
  "scan s i st =
     (if i < length s then
        (if s ! i = BACKSLASH \<and> i + 1 < length s then
           scan s (i + 2) (st\<lparr>buf := buf st @ [s ! (i + 1)]\<rparr>)
         else if startswith s MD_BOLD i \<and> is_boundary s i \<and> is_boundary s (i + length MD_BOLD) then
           scan s (i + length MD_BOLD) ((flush st)\<lparr>bold_on := \<not> bold_on st\<rparr>)
         else if [s ! i] = MD_ITALIC \<and> is_boundary s i \<and> is_boundary s (i + 1) then
           scan s (i + 1) ((flush st)\<lparr>italic_on := \<not> italic_on st\<rparr>)
         else scan s (i + 1) (st\<lparr>buf := buf st @ [s ! i]\<rparr>))
      else st)"
  by pat_completeness auto
termination
  by (relation "measure (\<lambda>(s, i, st). length s - i)") (auto simp: MD_BOLD_def)

declare scan.simps [simp del]

definition plain :: "string \<Rightarrow> run" where
  "plain t = \<lparr>run_text = t, bold = False, italic = False\<rparr>"

definition init_pstate :: pstate where
  "init_pstate = \<lparr>runs = [], bold_on = False, italic_on = False, buf = []\<rparr>"

text \<open>The state after the loop and the final \<open>flush()\<close>.\<close>

definition scan_all :: "string \<Rightarrow> pstate" where
  "scan_all s = flush (scan s 0 init_pstate)"

text \<open>\<open>parse_markdown(text)\<close>; the argument is \<open>None\<close> or a string.\<close>

definition parse_markdown :: "string option \<Rightarrow> run list" where
  "parse_markdown txt =
     (case txt of
        None \<Rightarrow> [plain '''']
      | Some s \<Rightarrow>
          if s = [] then [plain '''']
          else if bold_on (scan_all s) \<or> italic_on (scan_all s) then
            [plain (concat (map run_text (runs (scan_all s))))]
          else if runs (scan_all s) = [] then [plain '''']
          else runs (scan_all s))"

text \<open>
  The reading of the specification's round-trip sentence: the input with its delimiter
  markers removed, where a backslash followed by a character stands for that character.
\<close>

fun strip_markup :: "string \<Rightarrow> string" where
  "strip_markup [] = []"
| "strip_markup [c] = (if c = CHR ''*'' then [] else [c])"
| "strip_markup (c # d # rest) =
     (if c = BACKSLASH then d # strip_markup rest
      else if c = CHR ''*'' then strip_markup (d # rest)
      else c # strip_markup (d # rest))"

text \<open>
  A run of one or more asterisks with an alphanumeric character immediately before it
  and immediately after it: a marker inside a word.
\<close>

fun marker_inside_word :: "string \<Rightarrow> bool" where
  "marker_inside_word [] = False"
| "marker_inside_word (c # rest) =
     ((isalnum c \<and> take 1 rest = ''*'' \<and>
       (case dropWhile (\<lambda>x. x = CHR ''*'') rest of [] \<Rightarrow> False | d # _ \<Rightarrow> isalnum d))
      \<or> marker_inside_word rest)"

text \<open>A delimiter is still open when the scan reaches the end of the string.\<close>

definition ends_unbalanced :: "string \<Rightarrow> bool" where
  "ends_unbalanced s = (bold_on (scan_all s) \<or> italic_on (scan_all s))"

text \<open>All the text collected so far: the finished runs and the pending buffer.\<close>

definition total_text :: "pstate \<Rightarrow> string" where
  "total_text st = concat (map run_text (runs st)) @ buf st"

section \<open>Beautifier: font sizing\<close>

text \<open>\<open>str.lower\<close> on the code points 0..255.\<close>

definition lower_char :: "char \<Rightarrow> char" where
  "lower_char c = (let n = (of_char c :: nat) in
     if (65 \<le> n \<and> n \<le> 90) \<or> (192 \<le> n \<and> n \<le> 214) \<or> (216 \<le> n \<and> n \<le> 222)
     then char_of (n + 32) else c)"

definition lower :: "string \<Rightarrow> string" where
  "lower s = map lower_char s"

text \<open>Python's substring test \<open>sub in s\<close>.\<close>

fun py_in :: "string \<Rightarrow> string \<Rightarrow> bool" where
  "py_in sub [] = (sub = [])"
| "py_in sub (c # cs) = (take (length sub) (c # cs) = sub \<or> py_in sub cs)"

definition ROLE_TITLE :: string where
  "ROLE_TITLE = ''TITLE''"


definition FONT_SIZE_TITLE_SLIDE_MAIN :: int where
  "FONT_SIZE_TITLE_SLIDE_MAIN = 44"

definition FONT_SIZE_TITLE_SLIDE_SUBTITLE :: int where
  "FONT_SIZE_TITLE_SLIDE_SUBTITLE = 28"

definition FONT_SIZE_TITLE_SLIDE_FOOTER :: int where
  "FONT_SIZE_TITLE_SLIDE_FOOTER = 11"

definition FONT_SIZE_TITLE_LARGE :: int where
  "FONT_SIZE_TITLE_LARGE = 32"

definition FONT_SIZE_TITLE_SMALL :: int where
  "FONT_SIZE_TITLE_SMALL = 28"

definition FONT_SIZE_BODY_LARGE :: int where
  "FONT_SIZE_BODY_LARGE = 22"

definition FONT_SIZE_BODY_DEFAULT :: int where
  "FONT_SIZE_BODY_DEFAULT = 18"

definition FONT_SIZE_CONTENT_LARGE :: int where
  "FONT_SIZE_CONTENT_LARGE = 16"

definition FONT_SIZE_CONTENT_DEFAULT :: int where
  "FONT_SIZE_CONTENT_DEFAULT = 14"

definition FONT_SIZE_FOOTER :: int where
  "FONT_SIZE_FOOTER = 10"

definition FONT_SIZE_FALLBACK :: int where
  "FONT_SIZE_FALLBACK = 16"

definition AREA_THRESHOLD_TITLE :: real where
  "AREA_THRESHOLD_TITLE = 5 / 100"

definition AREA_THRESHOLD_BODY :: real where
  "AREA_THRESHOLD_BODY = 3 / 10"

definition AREA_THRESHOLD_CONTENT :: real where
  "AREA_THRESHOLD_CONTENT = 15 / 100"

text \<open>
  \<open>_determine_font_size(role_hint, area_ratio, slide_role)\<close>. The role hint may be
  \<open>None\<close> (\<open>role_hint or ""\<close>); the area ratio is a Python float, here a real number.
\<close>

definition determine_font_size :: "string option \<Rightarrow> real \<Rightarrow> string \<Rightarrow> int" where
  "determine_font_size role_hint area_ratio slide_role =
     (let role = lower (case role_hint of None \<Rightarrow> '''' | Some r \<Rightarrow> r) in
      if slide_role = ROLE_TITLE then
        (if py_in ''title'' role \<or> py_in ''header'' role \<or> py_in ''headline'' role then
           FONT_SIZE_TITLE_SLIDE_MAIN
         else if py_in ''subtitle'' role \<or> py_in ''body'' role then
           FONT_SIZE_TITLE_SLIDE_SUBTITLE
         else if py_in ''footer'' role then FONT_SIZE_TITLE_SLIDE_FOOTER
         else FONT_SIZE_TITLE_LARGE)
      else if py_in ''title'' role \<or> py_in ''header'' role \<or> py_in ''headline'' role then
        (if area_ratio > AREA_THRESHOLD_TITLE then FONT_SIZE_TITLE_LARGE else FONT_SIZE_TITLE_SMALL)
      else if py_in ''body'' role then
        (if area_ratio > AREA_THRESHOLD_BODY then FONT_SIZE_BODY_LARGE else FONT_SIZE_BODY_DEFAULT)
      else if py_in ''content'' role then
        (if area_ratio > AREA_THRESHOLD_CONTENT then FONT_SIZE_CONTENT_LARGE
         else FONT_SIZE_CONTENT_DEFAULT)
      else if py_in ''footer'' role then FONT_SIZE_FOOTER
      else FONT_SIZE_FALLBACK)"

section \<open>Template indexing: parser and registry builder\<close>

text \<open>
  The placeholder metadata that \<open>get_placeholder_metadata\<close> hands to the parser:
  name, position and size (EMU integers, \<open>None\<close> when the shape has none) and the
  simplified shape type.
\<close>

record raw_shape =
  shape_name :: "string option"
  shape_left :: "int option"
  shape_top :: "int option"
  shape_width :: "int option"
  shape_height :: "int option"
  shape_type :: "string option"

text \<open>
  The same dictionary after \<open>parse_template_node\<close> has added the normalised geometry.
  A key that a dictionary may lack is an optional field.
\<close>

record shape = raw_shape +
  norm_left :: "real option"
  norm_top :: "real option"
  norm_width :: "real option"
  norm_height :: "real option"
  area_ratio :: "real option"
  is_circular :: "bool option"
  radius :: "real option"
  ellipse_axes :: "(real \<times> real) option"

text \<open>\<open>shape.get(key) or 0\<close>.\<close>

definition or0 :: "int option \<Rightarrow> int" where
  "or0 v = (case v of None \<Rightarrow> 0 | Some n \<Rightarrow> n)"

text \<open>
  The body of the loop \<open>for shape in shapes\<close> of \<open>parse_template_node\<close>, for a slide of
  the given width and height.
\<close>

definition enrich_shape :: "int \<Rightarrow> int \<Rightarrow> raw_shape \<Rightarrow> shape" where
  "enrich_shape slide_width slide_height sh =
     (let w = or0 (shape_width sh); h = or0 (shape_height sh); l = or0 (shape_left sh); t = or0 (shape_top sh);
          st = (case shape_type sh of None \<Rightarrow> ''rectangle'' | Some x \<Rightarrow> x);
          nl = (if slide_width > 0 then real_of_int l / real_of_int slide_width else 0);
          nt = (if slide_height > 0 then real_of_int t / real_of_int slide_height else 0);
          nw = (if slide_width > 0 then real_of_int w / real_of_int slide_width else 0);
          nh = (if slide_height > 0 then real_of_int h / real_of_int slide_height else 0);
          total_area = slide_width * slide_height;
          ar = (if total_area > 0 then real_of_int (w * h) / real_of_int total_area else 0)
      in \<lparr>shape_name = shape_name sh, shape_left = shape_left sh, shape_top = shape_top sh, shape_width = shape_width sh,
          shape_height = shape_height sh, shape_type = shape_type sh,
          norm_left = Some nl, norm_top = Some nt, norm_width = Some nw, norm_height = Some nh,
          area_ratio = Some ar,
          is_circular = Some (st = ''oval''),
          radius = (if st = ''oval'' then Some (min nw nh / 2) else None),
          ellipse_axes = (if st = ''oval'' \<and> \<bar>nw - nh\<bar> > 1 / 100
                          then Some (nw / 2, nh / 2) else None)\<rparr>)"

text \<open>\<open>shape.get(key, 0)\<close> for a numeric key.\<close>

definition get0 :: "real option \<Rightarrow> real" where
  "get0 v = (case v of None \<Rightarrow> 0 | Some x \<Rightarrow> x)"

text \<open>\<open>derive_role_hint(shape)\<close>.\<close>

definition derive_role_hint :: "shape \<Rightarrow> string" where
  "derive_role_hint sh =
     (let nt = get0 (norm_top sh); nh = get0 (norm_height sh); ar = get0 (area_ratio sh) in
      if nt < 2 / 10 \<and> nh < 2 / 10 then ''title''
      else if nt > 8 / 10 then ''footer''
      else if ar > 3 / 10 then ''body''
      else if 2 / 10 \<le> nt \<and> nt \<le> 8 / 10 \<and> ar > 1 / 10 then ''content''
      else ''content'')"

text \<open>
  The enriched shapes of \<open>build_registry_node\<close>: each shape paired with its
  \<open>role_hint\<close>.
\<close>

definition enrich_roles :: "shape list \<Rightarrow> (shape \<times> string) list" where
  "enrich_roles shapes = map (\<lambda>sh. (sh, derive_role_hint sh)) shapes"

text \<open>\<open>sum(1 for s in enriched_shapes if s['role_hint'] == r)\<close>.\<close>

definition role_slots :: "string \<Rightarrow> (shape \<times> string) list \<Rightarrow> nat" where
  "role_slots r enriched = length (filter (\<lambda>s. snd s = r) enriched)"

definition image_slots :: "(shape \<times> string) list \<Rightarrow> nat" where
  "image_slots enriched =
     length (filter (\<lambda>s. py_in ''Picture''
        (case shape_name (fst s) of None \<Rightarrow> '''' | Some n \<Rightarrow> n)) enriched)"

text \<open>
  The classification of \<open>build_registry_node\<close> (the lines from \<open>slot_count\<close> to
  \<open>layout_purpose\<close>), for the shapes of one layout.
\<close>

definition layout_purpose :: "shape list \<Rightarrow> string" where
  "layout_purpose shapes =
     (let enriched = enrich_roles shapes;
          title_slots = role_slots ''title'' enriched;
          body_slots = role_slots ''body'' enriched;
          content_slots = role_slots ''content'' enriched;
          has_columns = (content_slots \<ge> 2);
          has_large_title =
            list_ex (\<lambda>s. get0 (area_ratio (fst s)) > 5 / 100 \<and> snd s = ''title'') enriched;
          has_only_title = (title_slots \<ge> 1 \<and> body_slots = 0 \<and> content_slots \<le> 1)
      in if has_only_title \<and> has_large_title then ''TITLE_SLIDE''
         else if image_slots enriched > 0 then ''VISUAL_SLIDE''
         else if has_columns \<and> content_slots \<ge> 2 then ''COMPARISON_SLIDE''
         else if body_slots \<ge> 1 then ''CONTENT_SLIDE''
         else ''GENERAL_CONTENT'')"

text \<open>
  One round of the loop \<open>for layout_raw in layouts_data\<close>: a layout without shapes is
  skipped and gets no purpose.
\<close>

definition analyze_layout :: "shape list \<Rightarrow> string option" where
  "analyze_layout shapes = (if shapes = [] then None else Some (layout_purpose shapes))"

text \<open>The regions of a layout that carry a given role hint.\<close>

definition regions_of_role :: "string \<Rightarrow> shape list \<Rightarrow> shape list" where
  "regions_of_role r shapes = filter (\<lambda>sh. derive_role_hint sh = r) shapes"

text \<open>An image region: a shape whose name contains \<open>Picture\<close>.\<close>

definition is_image_region :: "shape \<Rightarrow> bool" where
  "is_image_region sh = py_in ''Picture'' (case shape_name sh of None \<Rightarrow> '''' | Some n \<Rightarrow> n)"

text \<open>
  The condition under which the code calls a layout a title slide: at least one title
  region, no body region, at most one content region, and a title region that covers
  more than 5 percent of the slide.
\<close>

definition title_layout :: "shape list \<Rightarrow> bool" where
  "title_layout shapes =
     (regions_of_role ''title'' shapes \<noteq> [] \<and> regions_of_role ''body'' shapes = [] \<and>
      length (regions_of_role ''content'' shapes) \<le> 1 \<and>
      list_ex (\<lambda>sh. get0 (area_ratio sh) > 5 / 100) (regions_of_role ''title'' shapes))"

text \<open>A layout whose only region is a small title in the top band.\<close>

definition small_title :: shape where
  "small_title = \<lparr>shape_name = Some ''Title 1'', shape_left = Some 10, shape_top = Some 5,
     shape_width = Some 40, shape_height = Some 10, shape_type = Some ''rectangle'',
     norm_left = Some (1 / 10), norm_top = Some (5 / 100), norm_width = Some (4 / 10),
     norm_height = Some (1 / 10), area_ratio = Some (4 / 100), is_circular = Some False,
     radius = None, ellipse_axes = None\<rparr>"

section \<open>Beautifier: fitting text in a circle\<close>

text \<open>
  The functions of this section compute with Python floats. The model computes with real
  numbers: every constant is the decimal fraction that the source writes, and no rounding
  takes place.
\<close>

definition TEXT_PADDING_RATIO :: real where
  "TEXT_PADDING_RATIO = 1 / 10"

definition FONT_SIZE_MIN :: real where
  "FONT_SIZE_MIN = 8"

definition FONT_SIZE_MAX :: real where
  "FONT_SIZE_MAX = 72"

definition FIT_PRECISION :: real where
  "FIT_PRECISION = 5 / 10"

definition CHAR_WIDTH_RATIO :: real where
  "CHAR_WIDTH_RATIO = 6 / 10"

definition LINE_HEIGHT_RATIO :: real where
  "LINE_HEIGHT_RATIO = 12 / 10"

text \<open>\<open>str.isspace\<close> on the code points 0..255, and \<open>str.split()\<close> without arguments.\<close>

definition isspace :: "char \<Rightarrow> bool" where
  "isspace c = (let n = (of_char c :: nat) in
     (9 \<le> n \<and> n \<le> 13) \<or> (28 \<le> n \<and> n \<le> 32) \<or> n = 133 \<or> n = 160)"

fun split_from :: "string \<Rightarrow> string \<Rightarrow> string list" where
  "split_from word [] = (if word = [] then [] else [word])"
| "split_from word (c # cs) =
     (if isspace c then (if word = [] then split_from [] cs else word # split_from [] cs)
      else split_from (word @ [c]) cs)"

definition py_split :: "string \<Rightarrow> string list" where
  "py_split s = split_from [] s"

text \<open>\<open>_calculate_chord_width(y_offset, radius, center_y)\<close>.\<close>

definition calculate_chord_width :: "real \<Rightarrow> real \<Rightarrow> real \<Rightarrow> real" where
  "calculate_chord_width y_offset rad center_y =
     (if rad \<le> 0 then 0
      else if \<bar>y_offset - center_y\<bar> \<ge> rad then 0
      else max 0 (2 * sqrt (rad * rad
                             - \<bar>y_offset - center_y\<bar> * \<bar>y_offset - center_y\<bar>)))"

text \<open>
  \<open>sum(len(w) + 1 for w in current_line) * (mid_font * CHAR_WIDTH_RATIO) / 960.0\<close>,
  the estimated width of the current line.
\<close>

definition line_width :: "real \<Rightarrow> string list \<Rightarrow> real" where
  "line_width mid_font current_line =
     real (sum_list (map (\<lambda>w. length w + 1) current_line)) * (mid_font * CHAR_WIDTH_RATIO) / 960"

text \<open>
  The test that starts a new line: the current line is wider than the chord of the
  circle at the middle of the line,
  \<open>... > _calculate_chord_width(current_y + line_height/2, effective_radius)\<close>.
\<close>

definition line_too_wide :: "real \<Rightarrow> string list \<Rightarrow> real \<Rightarrow> real \<Rightarrow> real \<Rightarrow> bool" where
  "line_too_wide mid_font current_line current_y line_height effective_radius =
     (line_width mid_font current_line
        > calculate_chord_width (current_y + line_height / 2) effective_radius 0)"

text \<open>
  The loop \<open>for word in words\<close> of \<open>_fit_text_in_circle\<close>: it returns \<open>fits\<close>,
  \<open>current_line\<close> and \<open>current_y\<close> as they stand when the loop ends or breaks. (The list
  \<open>lines\<close> and the variable \<open>word_width\<close> are written and never read; the model leaves
  them out.)
\<close>

fun wrap_words ::
  "real \<Rightarrow> real \<Rightarrow> real \<Rightarrow> string list \<Rightarrow> string list \<Rightarrow> real \<Rightarrow> bool \<times> string list \<times> real" where
  "wrap_words mid_font effective_radius line_height [] current_line current_y =
     (True, current_line, current_y)"
| "wrap_words mid_font effective_radius line_height (word # ws) current_line current_y =
     (if current_line \<noteq> [] \<and>
         line_too_wide mid_font current_line current_y line_height effective_radius
      then
        (if current_y + line_height + line_height > effective_radius
         then (False, [word], current_y + line_height)
         else wrap_words mid_font effective_radius line_height ws [word] (current_y + line_height))
      else wrap_words mid_font effective_radius line_height ws (current_line @ [word]) current_y)"

text \<open>
  One round of the binary search: does the text fit at the font size \<open>mid_font\<close>?
\<close>

definition fits_font :: "string \<Rightarrow> real \<Rightarrow> real \<Rightarrow> bool" where
  "fits_font txt effective_radius mid_font =
     (case wrap_words mid_font effective_radius (mid_font * LINE_HEIGHT_RATIO / 720)
             (py_split txt) [] (- effective_radius) of
        (fits, current_line, current_y) \<Rightarrow>
          if current_line \<noteq> [] \<and> fits
          then \<not> (current_y + mid_font * LINE_HEIGHT_RATIO / 720 > effective_radius)
          else fits)"

text \<open>
  The loop \<open>while max_font - min_font > FIT_PRECISION\<close>, for any test \<open>fits\<close> of a
  font size.
\<close>

function search :: "(real \<Rightarrow> bool) \<Rightarrow> real \<Rightarrow> real \<Rightarrow> real \<Rightarrow> real" where
  "search fits min_font max_font best_fit =
     (if max_font - min_font > FIT_PRECISION then
        (if fits ((min_font + max_font) / 2)
         then search fits ((min_font + max_font) / 2) max_font ((min_font + max_font) / 2)
         else search fits min_font ((min_font + max_font) / 2) best_fit)
      else best_fit)"
  by pat_completeness auto
termination
proof (relation "measure (\<lambda>(fits, min_font, max_font, best_fit). nat \<lceil>2 * (max_font - min_font)\<rceil>)")
  show "wf (measure (\<lambda>(fits, min_font, max_font, best_fit). nat \<lceil>2 * (max_font - min_font)\<rceil>))"
    by simp
next
  fix fits :: "real \<Rightarrow> bool" and min_font max_font best_fit :: real
  assume "FIT_PRECISION < max_font - min_font"
  then have a: "1 / 2 < max_font - min_font" by (simp add: FIT_PRECISION_def)
  have "\<lceil>max_font - min_font\<rceil> < \<lceil>2 * (max_font - min_font)\<rceil>"
  proof (cases "max_font - min_font \<le> 1")
    case True
    then have "\<lceil>max_font - min_font\<rceil> \<le> 1" by (simp add: ceiling_le_iff)
    moreover have "1 < \<lceil>2 * (max_font - min_font)\<rceil>" using a by (simp add: less_ceiling_iff)
    ultimately show ?thesis by linarith
  next
    case False
    have "of_int \<lceil>max_font - min_font\<rceil> < (max_font - min_font) + 1" by linarith
    also have "\<dots> < 2 * (max_font - min_font)" using False by simp
    finally show ?thesis by (simp add: less_ceiling_iff)
  qed
  moreover have "0 < \<lceil>2 * (max_font - min_font)\<rceil>" using a by (simp add: less_ceiling_iff)
  ultimately have d: "nat \<lceil>max_font - min_font\<rceil> < nat \<lceil>2 * (max_font - min_font)\<rceil>"
    by linarith
  have e1: "2 * (max_font - (min_font + max_font) / 2) = max_font - min_font"
    by (simp add: field_simps)
  have e2: "2 * ((min_font + max_font) / 2 - min_font) = max_font - min_font"
    by (simp add: field_simps)
  show "((fits, (min_font + max_font) / 2, max_font, (min_font + max_font) / 2),
              (fits, min_font, max_font, best_fit))
        \<in> measure (\<lambda>(fits, min_font, max_font, best_fit). nat \<lceil>2 * (max_font - min_font)\<rceil>)"
    using d by (simp only: in_measure prod.case e1)
  show "((fits, min_font, (min_font + max_font) / 2, best_fit),
              (fits, min_font, max_font, best_fit))
        \<in> measure (\<lambda>(fits, min_font, max_font, best_fit). nat \<lceil>2 * (max_font - min_font)\<rceil>)"
    using d by (simp only: in_measure prod.case e2)
qed

declare search.simps [simp del]

text \<open>Python's \<open>int(x)\<close> for a float: truncation towards zero.\<close>

definition py_int :: "real \<Rightarrow> int" where
  "py_int x = (if x \<ge> 0 then \<lfloor>x\<rfloor> else \<lceil>x\<rceil>)"

text \<open>
  \<open>_fit_text_in_circle(text, runs, radius, padding_ratio)\<close>. The source never reads
  \<open>runs\<close>.
\<close>

definition fit_text_in_circle :: "string \<Rightarrow> run list \<Rightarrow> real \<Rightarrow> real \<Rightarrow> int" where
  "fit_text_in_circle txt rs rad padding_ratio =
     (if txt = [] \<or> rad \<le> 0 then py_int FONT_SIZE_MIN
      else if rad * (1 - padding_ratio) \<le> 0 then py_int FONT_SIZE_MIN
      else py_int (search (fits_font txt (rad * (1 - padding_ratio)))
                     FONT_SIZE_MIN FONT_SIZE_MAX FONT_SIZE_MIN))"

text \<open>
  The second string continues the first one with further words, or the first one has one
  word at most: the words of \<open>s\<close> are the leading words of \<open>t\<close>, or \<open>s\<close> has no
  more than one word and \<open>t\<close> has at least one.
\<close>

definition leading_words :: "string \<Rightarrow> string \<Rightarrow> bool" where
  "leading_words s t =
     (take (length (py_split s)) (py_split t) = py_split s \<or>
      (length (py_split s) \<le> 1 \<and> py_split t \<noteq> []))"

section \<open>Beautifier: values, registry and manifest\<close>

text \<open>
  The content of a manifest field is whatever the writer stage produced. The model covers
  \<open>None\<close>, strings and (nested) lists of these.
\<close>

datatype pyval = PNone | PStr string | PList "pyval list"

text \<open>Two lower-case hexadecimal digits, as in the escape \<open>\xNN\<close>.\<close>

definition hex_digit :: "nat \<Rightarrow> char" where
  "hex_digit n = (if n < 10 then char_of (48 + n) else char_of (87 + n))"

definition QUOTE :: char where
  "QUOTE = CHR 0x27"

definition DQUOTE :: char where
  "DQUOTE = CHR 0x22"

text \<open>Python's \<open>repr\<close> of one character of a string, inside the quote \<open>q\<close>.\<close>

definition repr_char :: "char \<Rightarrow> char \<Rightarrow> string" where
  "repr_char q c = (let n = (of_char c :: nat) in
     if c = BACKSLASH then [BACKSLASH, BACKSLASH]
     else if c = q then [BACKSLASH, q]
     else if n = 9 then [BACKSLASH, CHR ''t'']
     else if n = 10 then [BACKSLASH, CHR ''n'']
     else if n = 13 then [BACKSLASH, CHR ''r'']
     else if n < 32 \<or> (127 \<le> n \<and> n \<le> 160) \<or> n = 173
       then [BACKSLASH, CHR ''x'', hex_digit (n div 16), hex_digit (n mod 16)]
     else [c])"

text \<open>
  \<open>repr\<close> of a string: single quotes, unless the string has a single quote and no
  double quote.
\<close>

definition repr_str :: "string \<Rightarrow> string" where
  "repr_str s =
     (let q = (if QUOTE \<in> set s \<and> DQUOTE \<notin> set s then DQUOTE else QUOTE)
      in [q] @ concat (map (repr_char q) s) @ [q])"

text \<open>\<open>", ".join(xs)\<close>.\<close>

fun join_comma :: "string list \<Rightarrow> string" where
  "join_comma [] = []"
| "join_comma [x] = x"
| "join_comma (x # y # ys) = x @ '', '' @ join_comma (y # ys)"

text \<open>\<open>repr(v)\<close> and \<open>str(v)\<close>.\<close>

fun py_repr :: "pyval \<Rightarrow> string" where
  "py_repr PNone = ''None''"
| "py_repr (PStr s) = repr_str s"
| "py_repr (PList vs) = ''['' @ join_comma (map py_repr vs) @ '']''"

definition py_str :: "pyval \<Rightarrow> string" where
  "py_str v = (case v of PStr s \<Rightarrow> s | _ \<Rightarrow> py_repr v)"

text \<open>\<open>str(n)\<close> for an integer.\<close>

fun str_nat :: "nat \<Rightarrow> string" where
  "str_nat n = (if n < 10 then [char_of (48 + n)]
                else str_nat (n div 10) @ [char_of (48 + n mod 10)])"

declare str_nat.simps [simp del]

definition str_int :: "int \<Rightarrow> string" where
  "str_int i = (if i < 0 then CHR ''-'' # str_nat (nat (- i)) else str_nat (nat i))"

text \<open>\<open>str.strip()\<close>.\<close>

definition py_strip :: "string \<Rightarrow> string" where
  "py_strip s = rev (dropWhile isspace (rev (dropWhile isspace s)))"

text \<open>
  The white space that \<open>int(s)\<close> skips at both ends of a string: the ASCII white space
  (9 to 13 and 32) and the white space above 127 (133 and 160). The separators 28 to 31,
  which \<open>str.strip()\<close> removes, stay and make \<open>int\<close> raise.
\<close>

definition is_int_space :: "char \<Rightarrow> bool" where
  "is_int_space c = (let n = (of_char c :: nat) in
     (9 \<le> n \<and> n \<le> 13) \<or> n = 32 \<or> n = 133 \<or> n = 160)"

definition int_strip :: "string \<Rightarrow> string" where
  "int_strip s = rev (dropWhile is_int_space (rev (dropWhile is_int_space s)))"

text \<open>
  \<open>int(s)\<close> for a string, \<open>None\<close> where Python raises \<open>ValueError\<close>: optional
  white space around, an optional sign, then decimal digits that single underscores may
  separate.
\<close>

definition is_digit :: "char \<Rightarrow> bool" where
  "is_digit c = (48 \<le> (of_char c :: nat) \<and> (of_char c :: nat) \<le> 57)"

fun digits_ok :: "string \<Rightarrow> bool" where
  "digits_ok [] = False"
| "digits_ok [c] = is_digit c"
| "digits_ok (c # d # cs) =
     (is_digit c \<and> (if d = CHR ''_'' then digits_ok cs else digits_ok (d # cs)))"

definition digits_value :: "string \<Rightarrow> nat" where
  "digits_value ds = foldl (\<lambda>acc c. 10 * acc + (of_char c - 48)) 0 (filter is_digit ds)"

definition int_of_str :: "string \<Rightarrow> int option" where
  "int_of_str s =
     (case int_strip s of
        [] \<Rightarrow> None
      | c # cs \<Rightarrow>
          if c = CHR ''-'' then (if digits_ok cs then Some (- int (digits_value cs)) else None)
          else if c = CHR ''+'' then (if digits_ok cs then Some (int (digits_value cs)) else None)
          else if digits_ok (c # cs) then Some (int (digits_value (c # cs))) else None)"

text \<open>
  A slot identifier of the registry: missing or \<open>None\<close>, an integer, or a string.
  \<open>_safe_int(val)\<close> and \<open>str(val)\<close> on it.
\<close>

datatype slot_ident = IdNone | IdInt int | IdStr string


definition str_ident :: "slot_ident \<Rightarrow> string" where
  "str_ident v = (case v of IdNone \<Rightarrow> ''None'' | IdInt n \<Rightarrow> str_int n | IdStr s \<Rightarrow> s)"

text \<open>
  A dictionary entry that the code reads with a default: the key may be missing, hold
  \<open>None\<close>, or hold a value.
\<close>

datatype 'a entry = Missing | Null | Val 'a

text \<open>
  The geometry of a slot as the Beautifier reads it. An optional field is \<open>None\<close>
  when the key is missing. The key \<open>geometry\<close> of a slot may itself be missing or hold
  \<open>None\<close>: the slot schema of the registry declares it optional.
\<close>

record geometry =
  geo_area_ratio :: "real option"
  geo_is_circular :: "bool option"
  geo_radius :: "real option"

record slot =
  slot_id :: slot_ident
  slot_role_hint :: "string entry"
  slot_geometry :: "geometry entry"
  max_chars :: "int option"

record layout =
  layout_index :: int
  layout_name :: "string option"
  layout_slots :: "slot list option"


text \<open>
  The value under the key \<open>content\<close> of a manifest item: missing, \<open>None\<close> or another
  false value; a true value that is not a dictionary; or a dictionary, kept as the list of
  its items in order.
\<close>

datatype content = NoContent | NotADict | ContentDict "(string \<times> pyval) list"

record background =
  bg_enabled :: "bool option"

record slide =
  slide_layout_index :: "int option"
  slide_role :: "string option"
  slide_content :: content
  semantic_mapping :: "(string \<times> slot list) list option"
  background_image :: "background option"


text \<open>
  A Style Specification: \<open>spec_runs\<close> and \<open>spec_bullets\<close> are \<open>None\<close> when the
  dictionary has no such key; a bullet item is the list of its runs.
\<close>

record style_spec =
  spec_runs :: "run list option"
  spec_bullets :: "run list list option"
  font_size :: "int option"
  alignment :: "string option"
  semantic_role :: "string option"
  vertical_anchor :: "string option"

record styled_slide =
  out_layout_index :: int
  out_content :: "(string \<times> style_spec) list"
  out_slide_role :: string
  out_background_image :: "background option"
  is_semantic :: bool

text \<open>What the Beautifier prints, as a list of events.\<close>

datatype log_event =
    UnknownLayout "int option" int "string option"
  | ContentNotDict nat
  | UsingSemanticMapping nat
  | SkippingImageQuery
  | SkippedNoSlotId string
  | ExceedsMaxChars string nat int
  | CircularFit string int real
  | CircularMissingRadius string
  | StyledSlides nat

text \<open>
  The exceptions that leave \<open>beautifier_node\<close>: a \<open>ValueError\<close> with its message, and
  the \<open>AttributeError\<close> of an attribute read on \<open>None\<close>, with the name of the attribute.
\<close>

datatype error = ValueError string | AttributeError string

text \<open>
  The settings of \<open>src/config.py\<close>, which come from environment variables.
\<close>

record config =
  FORCE_FONT_SIZE_LAYOUTS :: "string list"
  ENABLE_AUTOFIT_ROLES :: "string list"

section \<open>Beautifier: alignment and styling\<close>

text \<open>\<open>_alignment_for_role(role_hint, semantic_role, slide_role)\<close>.\<close>

definition alignment_for_role ::
  "string option \<Rightarrow> string option \<Rightarrow> string option \<Rightarrow> string option" where
  "alignment_for_role rh sem_role sl_role =
     (let role = lower (case rh of None \<Rightarrow> '''' | Some r \<Rightarrow> r) in
      if sl_role = Some ROLE_TITLE \<or> sem_role = Some ''title'' then Some ''CENTER''
      else if list_ex (\<lambda>key. py_in key role)
                [''title'', ''header'', ''headline'', ''section-title'', ''tagline'',
                 ''caption'', ''quote'', ''center'']
        then Some ''CENTER''
      else if list_ex (\<lambda>key. py_in key role) [''number'', ''value'', ''metric'', ''right'']
        then Some ''RIGHT''
      else None)"

text \<open>
  \<open>geometry.get('area_ratio', 0.1)\<close> for \<open>geometry = slot.get('geometry', {})\<close>: the
  default dictionary stands in for a missing key only, and \<open>None\<close> has no \<open>get\<close>.
\<close>

definition area_ratio_of :: "geometry entry \<Rightarrow> error + real" where
  "area_ratio_of g =
     (case g of
        Missing \<Rightarrow> Inr (1 / 10)
      | Null \<Rightarrow> Inl (AttributeError ''get'')
      | Val geo \<Rightarrow> Inr (case geo_area_ratio geo of None \<Rightarrow> 1 / 10 | Some a \<Rightarrow> a))"

text \<open>\<open>role_hint = slot.get('role_hint', semantic_role)\<close>.\<close>

definition semantic_role_hint :: "slot \<Rightarrow> string \<Rightarrow> string option" where
  "semantic_role_hint sl sem_role =
     (case slot_role_hint sl of Missing \<Rightarrow> Some sem_role | Null \<Rightarrow> None | Val r \<Rightarrow> Some r)"

text \<open>
  The specification that \<open>_beautify_semantic_content\<close> stores for one field, once the
  font size is known: bullet items for a list under the key \<open>bullets\<close>, runs otherwise,
  and the vertical anchor for the title of a title slide.
\<close>

definition semantic_spec ::
  "string \<Rightarrow> string \<Rightarrow> pyval \<Rightarrow> string option \<Rightarrow> int option \<Rightarrow> style_spec" where
  "semantic_spec sl_role sem_role raw_content rh fsize =
     (let algn = alignment_for_role rh (Some sem_role) (Some sl_role);
          spec =
            (case raw_content of
               PList items \<Rightarrow>
                 if sem_role = ''bullets''
                 then \<lparr>spec_runs = None,
                       spec_bullets = Some (map (\<lambda>b. parse_markdown (Some (py_str b))) items),
                       font_size = fsize, alignment = algn,
                       semantic_role = Some sem_role, vertical_anchor = None\<rparr>
                 else \<lparr>spec_runs = Some (parse_markdown (Some (py_str raw_content))),
                       spec_bullets = None, font_size = fsize, alignment = algn,
                       semantic_role = Some sem_role, vertical_anchor = None\<rparr>
             | _ \<Rightarrow>
                 \<lparr>spec_runs = Some (parse_markdown (Some (py_str raw_content))),
                  spec_bullets = None, font_size = fsize, alignment = algn,
                  semantic_role = Some sem_role, vertical_anchor = None\<rparr>)
      in if sl_role = ROLE_TITLE \<and> sem_role = ''title''
         then spec\<lparr>vertical_anchor := Some ''MIDDLE''\<rparr> else spec)"

text \<open>
  The body of the loop of \<open>_beautify_semantic_content\<close>, for one item of the semantic
  content: the styled content and the log so far, and the item. The geometry is read only
  when the layout is one of \<open>FORCE_FONT_SIZE_LAYOUTS\<close>; a geometry that is \<open>None\<close> makes
  that read raise.
\<close>

definition semantic_step ::
  "config \<Rightarrow> layout \<Rightarrow> string \<Rightarrow> (string \<times> slot list) list \<Rightarrow>
   (string \<times> style_spec) list \<times> log_event list \<Rightarrow> string \<times> pyval \<Rightarrow>
   error + (string \<times> style_spec) list \<times> log_event list" where
  "semantic_step cfg lay sl_role mapping acc item =
     (let styled = fst acc; lg = snd acc; sem_role = fst item; raw_content = snd item in
      if take 1 sem_role = ''_'' then Inr (styled, lg)
      else if sem_role = ''image_query'' then Inr (styled, lg @ [SkippingImageQuery])
      else
        (case (case map_of mapping sem_role of None \<Rightarrow> [] | Some sl \<Rightarrow> sl) of
           [] \<Rightarrow> Inr (styled, lg)
         | sl # _ \<Rightarrow>
             if slot_id sl = IdNone then Inr (styled, lg @ [SkippedNoSlotId sem_role])
             else if (case layout_name lay of None \<Rightarrow> [] | Some n \<Rightarrow> n)
                       \<in> set (FORCE_FONT_SIZE_LAYOUTS cfg)
             then
               (case area_ratio_of (slot_geometry sl) of
                  Inl e \<Rightarrow> Inl e
                | Inr ar \<Rightarrow>
                    Inr (AList.update (str_ident (slot_id sl))
                           (semantic_spec sl_role sem_role raw_content
                              (semantic_role_hint sl sem_role)
                              (Some (determine_font_size (semantic_role_hint sl sem_role) ar sl_role)))
                           styled, lg))
             else
               Inr (AList.update (str_ident (slot_id sl))
                      (semantic_spec sl_role sem_role raw_content
                         (semantic_role_hint sl sem_role) None)
                      styled, lg)))"

text \<open>
  The loop of \<open>_beautify_semantic_content\<close> over the items that are left: an exception
  ends it.
\<close>

fun semantic_loop ::
  "config \<Rightarrow> layout \<Rightarrow> string \<Rightarrow> (string \<times> slot list) list \<Rightarrow>
   (string \<times> style_spec) list \<times> log_event list \<Rightarrow> (string \<times> pyval) list \<Rightarrow>
   error + (string \<times> style_spec) list \<times> log_event list" where
  "semantic_loop cfg lay sl_role mapping acc [] = Inr acc"
| "semantic_loop cfg lay sl_role mapping acc (item # rest) =
     (case semantic_step cfg lay sl_role mapping acc item of
        Inl e \<Rightarrow> Inl e
      | Inr acc' \<Rightarrow> semantic_loop cfg lay sl_role mapping acc' rest)"

text \<open>
  \<open>_beautify_semantic_content\<close>: the exception it raises, or the styled content with
  what it prints.
\<close>

definition beautify_semantic_content ::
  "config \<Rightarrow> (string \<times> pyval) list \<Rightarrow> layout \<Rightarrow> string \<Rightarrow> (string \<times> slot list) list \<Rightarrow>
   error + (string \<times> style_spec) list \<times> log_event list" where
  "beautify_semantic_content cfg semantic_content lay sl_role mapping =
     semantic_loop cfg lay sl_role mapping ([], []) semantic_content"








definition slide_mapping :: "slide \<Rightarrow> (string \<times> slot list) list" where
  "slide_mapping sl = (case semantic_mapping sl of None \<Rightarrow> [] | Some m \<Rightarrow> m)"

text \<open>
  The items of \<open>slide_content = slide.get("content", {}) or {}\<close>, coerced to empty when
  it is not a dictionary, and the test \<open>is_semantic\<close> on them.
\<close>

definition content_items :: "slide \<Rightarrow> (string \<times> pyval) list" where
  "content_items sl = (case slide_content sl of ContentDict c \<Rightarrow> c | _ \<Rightarrow> [])"







section \<open>Beautifier: the Style Specifications of a slide\<close>

text \<open>
  What a call hands to its caller: the exception, or the value it returns without what it
  printed.
\<close>

definition returned :: "error + 'a \<times> log_event list \<Rightarrow> error + 'a" where
  "returned r = (case r of Inl e \<Rightarrow> Inl e | Inr res \<Rightarrow> Inr (fst res))"


text \<open>
  No slot that the Beautifier can read has a geometry that is \<open>None\<close>: neither a slot of a
  layout of the registry nor a slot of the semantic mapping of a slide.
\<close>

definition slots_have_geometry :: "slot list \<Rightarrow> bool" where
  "slots_have_geometry sls = list_all (\<lambda>sl. slot_geometry sl \<noteq> Null) sls"



text \<open>
  The key under which the semantic path stores the field of an item of the content, if
  it stores one: the identifier of the first slot mapped to the role. A metadata key, the
  image query, a role without a mapped slot and a slot without an identifier give no
  field.
\<close>

definition semantic_key :: "(string \<times> slot list) list \<Rightarrow> string \<times> pyval \<Rightarrow> string option" where
  "semantic_key mapping item =
     (if take 1 (fst item) = ''_'' \<or> fst item = ''image_query'' then None
      else (case map_of mapping (fst item) of
              Some (sl # _) \<Rightarrow> if slot_id sl = IdNone then None else Some (str_ident (slot_id sl))
            | _ \<Rightarrow> None))"





section \<open>Injector: the slide and its text frames\<close>

text \<open>
  The part of a python-pptx slide that the Injector reads and writes: the placeholders of
  the slide, each with its index, its type and, when the shape has one, its text frame; a
  text frame is a list of paragraphs and a paragraph a list of runs. The rectangles that
  \<open>_add_background_gradient\<close> draws and the notes it writes are not placeholders and are
  left out, as is everything the Injector prints.
\<close>

record text_run =
  tr_text :: string
  tr_bold :: "bool option"
  tr_italic :: "bool option"
  tr_size :: "int option"
  tr_color :: "(nat \<times> nat \<times> nat) option"

record par =
  par_runs :: "text_run list"
  par_level :: nat
  par_alignment :: "string option"

record text_frame =
  paragraphs :: "par list"
  tf_vertical_anchor :: "string option"
  tf_auto_size :: "string option"

record placeholder =
  ph_idx :: int
  ph_type :: "string option"
  ph_text_frame :: "text_frame option"

text \<open>\<open>sep.join(xs)\<close>.\<close>

fun join_with :: "string \<Rightarrow> string list \<Rightarrow> string" where
  "join_with sep [] = []"
| "join_with sep [x] = x"
| "join_with sep (x # y # ys) = x @ sep @ join_with sep (y # ys)"

text \<open>
  python-pptx: the text of a frame is the texts of its paragraphs joined by line feeds;
  \<open>clear()\<close> removes every paragraph but the first and empties that one;
  \<open>add_paragraph()\<close> appends an empty paragraph.
\<close>

definition par_text :: "par \<Rightarrow> string" where
  "par_text p = concat (map tr_text (par_runs p))"

definition frame_text :: "text_frame \<Rightarrow> string" where
  "frame_text tf = join_with [CHR 0x0A] (map par_text (paragraphs tf))"

definition frame_clear :: "text_frame \<Rightarrow> text_frame" where
  "frame_clear tf =
     tf\<lparr>paragraphs := (case paragraphs tf of [] \<Rightarrow> [] | p # _ \<Rightarrow> [p\<lparr>par_runs := []\<rparr>])\<rparr>"

definition empty_paragraph :: par where
  "empty_paragraph = \<lparr>par_runs = [], par_level = 0, par_alignment = None\<rparr>"

text \<open>\<open>find_placeholder_by_id(slide, idx)\<close>.\<close>

definition find_placeholder_by_id :: "placeholder list \<Rightarrow> int \<Rightarrow> placeholder option" where
  "find_placeholder_by_id sld idx = find (\<lambda>shape. ph_idx shape = idx) sld"

text \<open>
  Writing the text frame of that placeholder back: the Injector works on the shape object
  itself, the first one of the slide with the index.
\<close>

fun set_text_frame :: "int \<Rightarrow> text_frame \<Rightarrow> placeholder list \<Rightarrow> placeholder list" where
  "set_text_frame idx tf [] = []"
| "set_text_frame idx tf (shape # rest) =
     (if ph_idx shape = idx then shape\<lparr>ph_text_frame := Some tf\<rparr> # rest
      else shape # set_text_frame idx tf rest)"

section \<open>Injector: template header patterns\<close>

text \<open>
  The three regular expressions of \<open>HEADER_PATTERNS\<close>, matched as \<open>re.search\<close> with
  \<open>re.IGNORECASE\<close> matches them on a stripped string. \<open>\s\<close> is \<open>isspace\<close>,
  \<open>\d\<close> a decimal digit, \<open>\w\<close> an alphanumeric character or an underscore. The
  second and the third pattern are anchored at both ends, and their parts cannot contain
  white space: they describe the white-space separated words of the string.
\<close>

definition is_word_char :: "char \<Rightarrow> bool" where
  "is_word_char c = (isalnum c \<or> c = CHR ''_'')"

definition all_digits :: "string \<Rightarrow> bool" where
  "all_digits w = (w \<noteq> [] \<and> list_all is_digit w)"

definition all_word_chars :: "string \<Rightarrow> bool" where
  "all_word_chars w = (w \<noteq> [] \<and> list_all is_word_char w)"

text \<open>\<open>^\s*Page\s+\d+\s+\d{1,2}\s+\w+\s+\d{4}\s*$\<close>\<close>

definition matches_page_date :: "string \<Rightarrow> bool" where
  "matches_page_date s =
     (case py_split s of
        [w1, w2, w3, w4, w5] \<Rightarrow>
          lower w1 = ''page'' \<and> all_digits w2 \<and> all_digits w3 \<and> length w3 \<le> 2 \<and>
          all_word_chars w4 \<and> all_digits w5 \<and> length w5 = 4
      | _ \<Rightarrow> False)"

text \<open>\<open>^\s*\d{1,2}\s+\w+\s+\d{4}\s*$\<close>\<close>

definition matches_date :: "string \<Rightarrow> bool" where
  "matches_date s =
     (case py_split s of
        [w3, w4, w5] \<Rightarrow>
          all_digits w3 \<and> length w3 \<le> 2 \<and> all_word_chars w4 \<and> all_digits w5 \<and> length w5 = 4
      | _ \<Rightarrow> False)"

text \<open>
  \<open>Presentation\s+title\s+Page\s+\d+\<close>, anywhere in the string: after a word, one or
  more spaces and then the rest of the pattern.
\<close>

definition after_spaces :: "string \<Rightarrow> string option" where
  "after_spaces s =
     (case s of [] \<Rightarrow> None
      | c # cs \<Rightarrow> if isspace c then Some (dropWhile isspace cs) else None)"

definition after_word :: "string \<Rightarrow> string \<Rightarrow> string option" where
  "after_word w s =
     (if lower (take (length w) s) = w then after_spaces (drop (length w) s) else None)"

definition presentation_title_at :: "string \<Rightarrow> bool" where
  "presentation_title_at s =
     (case after_word ''presentation'' s of
        None \<Rightarrow> False
      | Some s1 \<Rightarrow>
          (case after_word ''title'' s1 of
             None \<Rightarrow> False
           | Some s2 \<Rightarrow>
               (case after_word ''page'' s2 of
                  None \<Rightarrow> False
                | Some s3 \<Rightarrow> (case s3 of [] \<Rightarrow> False | c # _ \<Rightarrow> is_digit c))))"

fun matches_presentation_title :: "string \<Rightarrow> bool" where
  "matches_presentation_title [] = False"
| "matches_presentation_title (c # cs) =
     (presentation_title_at (c # cs) \<or> matches_presentation_title cs)"

text \<open>\<open>_is_template_header(text, placeholder_type)\<close>.\<close>

definition is_template_header :: "string \<Rightarrow> string option \<Rightarrow> bool" where
  "is_template_header txt placeholder_type =
     (if py_strip txt = [] then False
      else if placeholder_type \<in> {Some ''TITLE'', Some ''CENTER_TITLE'', Some ''SUBTITLE''} then False
      else matches_presentation_title (py_strip txt) \<or> matches_page_date (py_strip txt)
           \<or> matches_date (py_strip txt))"

section \<open>Injector: rendering\<close>

text \<open>
  One run of a paragraph, as the Injector writes it: text, bold and italic from the styled
  run, the font size when the specification has one, white when the slide has a
  background.
\<close>

definition rendered_run :: "bool \<Rightarrow> int option \<Rightarrow> run \<Rightarrow> text_run" where
  "rendered_run has_background fsize r =
     \<lparr>tr_text = run_text r, tr_bold = Some (bold r), tr_italic = Some (italic r),
      tr_size = fsize,
      tr_color = (if has_background then Some (255, 255, 255) else None)\<rparr>"

text \<open>The loop over the runs: a run with empty text adds nothing.\<close>

definition add_runs :: "bool \<Rightarrow> int option \<Rightarrow> run list \<Rightarrow> par \<Rightarrow> par" where
  "add_runs has_background fsize rs p =
     p\<lparr>par_runs := par_runs p
          @ map (rendered_run has_background fsize) (filter (\<lambda>r. run_text r \<noteq> []) rs)\<rparr>"

text \<open>The alignment constant for the string of the specification, if it is one of the three.\<close>

definition target_alignment :: "string option \<Rightarrow> string option" where
  "target_alignment a =
     (if a = Some ''CENTER'' then Some ''CENTER''
      else if a = Some ''RIGHT'' then Some ''RIGHT''
      else if a = Some ''LEFT'' then Some ''LEFT''
      else None)"

definition align_paragraph :: "string option \<Rightarrow> par \<Rightarrow> par" where
  "align_paragraph a p = (case a of None \<Rightarrow> p | Some x \<Rightarrow> p\<lparr>par_alignment := Some x\<rparr>)"

text \<open>
  The paragraphs after the loop over the bullet items: the first item goes to the first
  paragraph (added when there is none), every other item to a new paragraph; each at
  level 0.
\<close>

definition bullet_paragraphs ::
  "bool \<Rightarrow> int option \<Rightarrow> run list list \<Rightarrow> par list \<Rightarrow> par list" where
  "bullet_paragraphs has_background fsize items ps =
     (case items of
        [] \<Rightarrow> ps
      | b # bs \<Rightarrow>
          (case ps of
             [] \<Rightarrow> [add_runs has_background fsize b (empty_paragraph\<lparr>par_level := 0\<rparr>)]
           | p # rest \<Rightarrow> add_runs has_background fsize b (p\<lparr>par_level := 0\<rparr>) # rest)
          @ map (\<lambda>item. add_runs has_background fsize item (empty_paragraph\<lparr>par_level := 0\<rparr>)) bs)"

text \<open>The single text field: the runs go to the first paragraph, added when there is none.\<close>

definition runs_paragraphs ::
  "bool \<Rightarrow> int option \<Rightarrow> string option \<Rightarrow> run list \<Rightarrow> par list \<Rightarrow> par list" where
  "runs_paragraphs has_background fsize a rs ps =
     (case ps of
        [] \<Rightarrow> [align_paragraph a (add_runs has_background fsize rs empty_paragraph)]
      | p # rest \<Rightarrow> align_paragraph a (add_runs has_background fsize rs p) # rest)"

text \<open>
  The content test of the semantic path:
  \<open>has_runs = any((r.get("text") or "").strip() for r in runs)\<close> and
  \<open>has_bullets = bool(bullets)\<close>.
\<close>

definition has_runs :: "style_spec \<Rightarrow> bool" where
  "has_runs style =
     list_ex (\<lambda>r. py_strip (run_text r) \<noteq> [])
       (case spec_runs style of None \<Rightarrow> [] | Some rs \<Rightarrow> rs)"

definition has_bullets :: "style_spec \<Rightarrow> bool" where
  "has_bullets style = ((case spec_bullets style of None \<Rightarrow> [] | Some bs \<Rightarrow> bs) \<noteq> [])"

text \<open>
  The text frame after the semantic path has rendered a specification with content into
  it: from \<open>tf.clear()\<close> to the autofit setting.
\<close>

definition fill_frame :: "config \<Rightarrow> bool \<Rightarrow> style_spec \<Rightarrow> text_frame \<Rightarrow> text_frame" where
  "fill_frame cfg has_background style tf =
     (let tf1 = frame_clear tf;
          tf2 = (if vertical_anchor style = Some ''MIDDLE''
                 then tf1\<lparr>tf_vertical_anchor := Some ''MIDDLE''\<rparr> else tf1);
          a = target_alignment (alignment style);
          tf3 = (case spec_bullets style of
                   Some items \<Rightarrow>
                     tf2\<lparr>paragraphs :=
                       map (align_paragraph a)
                         (bullet_paragraphs has_background (font_size style) items (paragraphs tf2))\<rparr>
                 | None \<Rightarrow>
                     (case spec_runs style of
                        Some rs \<Rightarrow>
                          tf2\<lparr>paragraphs :=
                            runs_paragraphs has_background (font_size style) a rs (paragraphs tf2)\<rparr>
                      | None \<Rightarrow> tf2))
      in if (case semantic_role style of None \<Rightarrow> False
             | Some r \<Rightarrow> r \<in> set (ENABLE_AUTOFIT_ROLES cfg))
         then tf3\<lparr>tf_auto_size := Some ''TEXT_TO_FIT_SHAPE''\<rparr> else tf3)"

text \<open>
  The body of the loop of the semantic path, for one item \<open>(slot_id, style)\<close> of the
  content: the placeholders of the slide after it. A \<open>ValueError\<close> of \<open>int(slot_id)\<close>
  is caught by the \<open>except\<close> of the loop body and leaves the slide as it is.
\<close>

definition render_semantic_field ::
  "config \<Rightarrow> bool \<Rightarrow> placeholder list \<Rightarrow> string \<times> style_spec \<Rightarrow> placeholder list" where
  "render_semantic_field cfg has_background sld item =
     (if semantic_role (snd item) = Some ''image_query'' then sld
      else
        (case int_of_str (fst item) of
           None \<Rightarrow> sld
         | Some idx \<Rightarrow>
             (case find_placeholder_by_id sld idx of
                None \<Rightarrow> sld
              | Some shape \<Rightarrow>
                  (case ph_text_frame shape of
                     None \<Rightarrow> sld
                   | Some tf \<Rightarrow>
                       if \<not> (has_runs (snd item) \<or> has_bullets (snd item)) then sld
                       else set_text_frame idx (fill_frame cfg has_background (snd item) tf) sld))))"

text \<open>
  The runs that the legacy path writes: those that match no header pattern and have a
  non-empty text.
\<close>

definition legacy_runs :: "style_spec \<Rightarrow> run list" where
  "legacy_runs style =
     filter (\<lambda>r. \<not> is_template_header (run_text r) None)
       (case spec_runs style of None \<Rightarrow> [] | Some rs \<Rightarrow> rs)"

text \<open>
  The body of the loop of the legacy path, for one item \<open>(slot_id, style)\<close>. The frame
  is cleared on both branches of the header test, before the content is looked at.
\<close>

definition render_legacy_field ::
  "bool \<Rightarrow> placeholder list \<Rightarrow> string \<times> style_spec \<Rightarrow> placeholder list" where
  "render_legacy_field has_background sld item =
     (case int_of_str (fst item) of
        None \<Rightarrow> sld
      | Some idx \<Rightarrow>
          (case find_placeholder_by_id sld idx of
             None \<Rightarrow> sld
           | Some shape \<Rightarrow>
               (case ph_text_frame shape of
                  None \<Rightarrow> sld
                | Some tf \<Rightarrow>
                    if is_template_header (frame_text tf) (ph_type shape) \<and>
                       list_all (\<lambda>r. py_strip (run_text r) = [])
                         (case spec_runs (snd item) of None \<Rightarrow> [] | Some rs \<Rightarrow> rs)
                    then set_text_frame idx (frame_clear tf) sld
                    else
                      set_text_frame idx
                        ((frame_clear tf)\<lparr>paragraphs :=
                           runs_paragraphs has_background (font_size (snd item))
                             (target_alignment (alignment (snd item)))
                             (legacy_runs (snd item)) (paragraphs (frame_clear tf))\<rparr>)
                        sld)))"

text \<open>
  One slide of \<open>surgical_injection_node\<close>: the placeholders of the new slide after all
  the fields of the manifest item are rendered.
\<close>

definition render_slide :: "config \<Rightarrow> styled_slide \<Rightarrow> placeholder list \<Rightarrow> placeholder list" where
  "render_slide cfg slide_def sld =
     (let has_background =
            (case out_background_image slide_def of None \<Rightarrow> False
             | Some bg \<Rightarrow> (case bg_enabled bg of None \<Rightarrow> False | Some b \<Rightarrow> b))
      in if is_semantic slide_def
         then foldl (render_semantic_field cfg has_background) sld (out_content slide_def)
         else foldl (render_legacy_field has_background) sld (out_content slide_def))"

datatype inject_error = IndexError

text \<open>\<open>prs.slide_layouts[layout_idx]\<close>, with Python's negative indices.\<close>

definition slide_layout_at :: "placeholder list list \<Rightarrow> int \<Rightarrow> inject_error + placeholder list" where
  "slide_layout_at slide_layouts i =
     (if i < - int (length slide_layouts) \<or> int (length slide_layouts) \<le> i then Inl IndexError
      else if i < 0 then Inr (slide_layouts ! nat (i + int (length slide_layouts)))
      else Inr (slide_layouts ! nat i))"

text \<open>
  python-pptx: \<open>prs.slides.add_slide(layout)\<close> clones the placeholders of the layout
  onto the new slide. A clone keeps the index and the type of the layout placeholder; its
  text frame, when it has one, starts as one empty paragraph: the prompt text stays on the
  layout.
\<close>

definition fresh_text_frame :: text_frame where
  "fresh_text_frame =
     \<lparr>paragraphs = [empty_paragraph], tf_vertical_anchor = None, tf_auto_size = None\<rparr>"

definition add_slide :: "placeholder list \<Rightarrow> placeholder list" where
  "add_slide shapes =
     map (\<lambda>shape. shape\<lparr>ph_text_frame := map_option (\<lambda>_. fresh_text_frame) (ph_text_frame shape)\<rparr>)
       shapes"

text \<open>
  \<open>surgical_injection_node\<close>: the slides of the saved presentation in order, for the
  slide layouts of the master file, each given as the placeholders that it hands on to a
  new slide.
\<close>

fun surgical_injection_node ::
  "config \<Rightarrow> placeholder list list \<Rightarrow> styled_slide list \<Rightarrow> inject_error + placeholder list list" where
  "surgical_injection_node cfg slide_layouts [] = Inr []"
| "surgical_injection_node cfg slide_layouts (slide_def # rest) =
     (case slide_layout_at slide_layouts (out_layout_index slide_def) of
        Inl e \<Rightarrow> Inl e
      | Inr shapes \<Rightarrow>
          (case surgical_injection_node cfg slide_layouts rest of
             Inl e \<Rightarrow> Inl e
           | Inr slides \<Rightarrow> Inr (render_slide cfg slide_def (add_slide shapes) # slides)))"

text \<open>The text of every placeholder of a slide, \<open>None\<close> for a shape without text frame.\<close>

definition region_texts :: "placeholder list \<Rightarrow> string option list" where
  "region_texts sld = map (\<lambda>shape. map_option frame_text (ph_text_frame shape)) sld"

text \<open>
  The texts of the placeholders of every slide of the saved presentation, or the error.
\<close>

definition injected_texts ::
  "config \<Rightarrow> placeholder list list \<Rightarrow> styled_slide list \<Rightarrow>
   inject_error + string option list list" where
  "injected_texts cfg slide_layouts mf =
     (case surgical_injection_node cfg slide_layouts mf of
        Inl e \<Rightarrow> Inl e
      | Inr slides \<Rightarrow> Inr (map region_texts slides))"

section \<open>Example data\<close>

definition default_config :: config where
  "default_config = \<lparr>FORCE_FONT_SIZE_LAYOUTS = [''KPI_TILE'', ''METRIC_CARD''],
                     ENABLE_AUTOFIT_ROLES = [''caption'', ''circular_text'']\<rparr>"

text \<open>
  A registry with one layout, index 0, whose slots are a title and a body; a manifest
  whose only slide names the layout index 7 and has a title and an image query; and the
  state that holds both.
\<close>

definition example_layout :: layout where
  "example_layout =
     \<lparr>layout_index = 0, layout_name = Some ''Title and Content'',
      layout_slots = Some
        [\<lparr>slot_id = IdInt 0, slot_role_hint = Val ''title'',
          slot_geometry = Val \<lparr>geo_area_ratio = Some (1 / 10), geo_is_circular = Some False,
                                geo_radius = None\<rparr>,
          max_chars = Some 100\<rparr>,
         \<lparr>slot_id = IdInt 1, slot_role_hint = Val ''body'',
          slot_geometry = Val \<lparr>geo_area_ratio = Some (4 / 10), geo_is_circular = Some False,
                                geo_radius = None\<rparr>,
          max_chars = Some 500\<rparr>]\<rparr>"

definition example_slide :: slide where
  "example_slide =
     \<lparr>slide_layout_index = Some 7, slide_role = Some ''CONTENT'',
      slide_content = ContentDict [(''title'', PStr ''**Big** Launch''),
                                   (''image_query'', PStr ''a rocket'')],
      semantic_mapping = Some
        [(''title'', [\<lparr>slot_id = IdInt 0, slot_role_hint = Val ''title'',
                        slot_geometry = Missing, max_chars = Some 100\<rparr>]),
         (''image_query'', [\<lparr>slot_id = IdInt 2, slot_role_hint = Val ''content'',
                              slot_geometry = Missing, max_chars = Some 100\<rparr>])],
      background_image = None\<rparr>"


text \<open>
  A placeholder with the index 1 that holds the template's prompt, and a specification
  with text and the semantic role \<open>image_query\<close>.
\<close>

definition prompt_placeholder :: placeholder where
  "prompt_placeholder =
     \<lparr>ph_idx = 1, ph_type = Some ''BODY (2)'',
      ph_text_frame = Some
        \<lparr>paragraphs = [\<lparr>par_runs = [\<lparr>tr_text = ''Click to add text'', tr_bold = None,
                                      tr_italic = None, tr_size = None, tr_color = None\<rparr>],
                        par_level = 0, par_alignment = None\<rparr>],
         tf_vertical_anchor = None, tf_auto_size = None\<rparr>\<rparr>"

definition image_field :: style_spec where
  "image_field =
     \<lparr>spec_runs = Some [plain ''a rocket''], spec_bullets = None, font_size = None,
      alignment = None, semantic_role = Some ''image_query'', vertical_anchor = None\<rparr>"



definition body_field :: "string \<Rightarrow> style_spec" where
  "body_field t =
     \<lparr>spec_runs = Some [plain t], spec_bullets = None, font_size = Some 22,
      alignment = None, semantic_role = None, vertical_anchor = None\<rparr>"

definition legacy_styled :: "(string \<times> style_spec) list \<Rightarrow> styled_slide" where
  "legacy_styled specs =
     \<lparr>out_layout_index = 0, out_content = specs, out_slide_role = ''CONTENT'',
      out_background_image = None, is_semantic = False\<rparr>"




section \<open>Properties of the markdown parser\<close>

lemma isalnum_star: "\<not> isalnum (CHR ''*'')"
  by (simp add: isalnum_def)

lemma is_boundary_star_left: "s ! i = CHR ''*'' \<Longrightarrow> is_boundary s i"
  by (simp add: is_boundary_def isalnum_star)

lemma is_boundary_star_right: "s ! i = CHR ''*'' \<Longrightarrow> is_boundary s (Suc i)"
  by (simp add: is_boundary_def isalnum_star)

lemma total_text_flush: "total_text (flush st) = total_text st"
  by (simp add: total_text_def flush_def)

lemma flags_flush: "bold_on (flush st) = bold_on st" "italic_on (flush st) = italic_on st"
  by (simp_all add: flush_def)

lemma buf_flush: "buf (flush st) = []"
  by (simp add: flush_def)

lemma star_not_backslash: "CHR ''*'' \<noteq> BACKSLASH"
  by (simp add: BACKSLASH_def)

lemma strip_markup_star: "strip_markup (CHR ''*'' # rest) = strip_markup rest"
  by (cases rest) (simp_all add: BACKSLASH_def)

lemma strip_markup_other:
  "c \<noteq> CHR ''*'' \<Longrightarrow> c \<noteq> BACKSLASH \<Longrightarrow> strip_markup (c # rest) = c # strip_markup rest"
  by (cases rest) simp_all

lemma strip_markup_escape: "strip_markup (BACKSLASH # d # rest) = d # strip_markup rest"
  by simp

lemma strip_markup_last_backslash: "strip_markup [BACKSLASH] = [BACKSLASH]"
  by (simp add: BACKSLASH_def)

lemma startswith_bold:
  "startswith s MD_BOLD i \<longleftrightarrow> Suc i < length s \<and> s ! i = CHR ''*'' \<and> s ! Suc i = CHR ''*''"
proof (cases "Suc i < length s")
  case True
  then have "drop i s = s ! i # s ! Suc i # drop (Suc (Suc i)) s"
    by (simp add: Cons_nth_drop_Suc Suc_lessD)
  then show ?thesis using True by (simp add: startswith_def MD_BOLD_def)
next
  case False
  then have "length (drop i s) < 2" by simp
  then have "length (take (length MD_BOLD) (drop i s)) < 2" by simp
  then have "take (length MD_BOLD) (drop i s) \<noteq> MD_BOLD"
    by (metis MD_BOLD_def length_Cons less_irrefl list.size(3) numeral_2_eq_2)
  then show ?thesis using False by (simp add: startswith_def)
qed
lemma scan_stop: "\<not> i < length s \<Longrightarrow> scan s i st = st"
  by (subst scan.simps) (simp only: if_not_P if_False)

lemma scan_escape:
  "i < length s \<Longrightarrow> s ! i = BACKSLASH \<and> i + 1 < length s \<Longrightarrow>
   scan s i st = scan s (i + 2) (st\<lparr>buf := buf st @ [s ! (i + 1)]\<rparr>)"
  by (subst scan.simps) (simp only: if_P)

lemma scan_bold:
  "i < length s \<Longrightarrow> \<not> (s ! i = BACKSLASH \<and> i + 1 < length s) \<Longrightarrow>
   startswith s MD_BOLD i \<and> is_boundary s i \<and> is_boundary s (i + length MD_BOLD) \<Longrightarrow>
   scan s i st = scan s (i + length MD_BOLD) ((flush st)\<lparr>bold_on := \<not> bold_on st\<rparr>)"
  by (subst scan.simps) (simp only: if_P if_not_P if_True if_False)

lemma scan_italic:
  "i < length s \<Longrightarrow> \<not> (s ! i = BACKSLASH \<and> i + 1 < length s) \<Longrightarrow>
   \<not> (startswith s MD_BOLD i \<and> is_boundary s i \<and> is_boundary s (i + length MD_BOLD)) \<Longrightarrow>
   [s ! i] = MD_ITALIC \<and> is_boundary s i \<and> is_boundary s (i + 1) \<Longrightarrow>
   scan s i st = scan s (i + 1) ((flush st)\<lparr>italic_on := \<not> italic_on st\<rparr>)"
  by (subst scan.simps) (simp only: if_P if_not_P if_True if_False)

lemma scan_literal:
  "i < length s \<Longrightarrow> \<not> (s ! i = BACKSLASH \<and> i + 1 < length s) \<Longrightarrow>
   \<not> (startswith s MD_BOLD i \<and> is_boundary s i \<and> is_boundary s (i + length MD_BOLD)) \<Longrightarrow>
   \<not> ([s ! i] = MD_ITALIC \<and> is_boundary s i \<and> is_boundary s (i + 1)) \<Longrightarrow>
   scan s i st = scan s (i + 1) (st\<lparr>buf := buf st @ [s ! i]\<rparr>)"
  by (subst scan.simps) (simp only: if_P if_not_P if_True if_False)

lemma scan_total_text:
  "total_text (scan s i st) = total_text st @ strip_markup (drop i s)"
proof (induction s i st rule: scan.induct)
  case (1 s i st)
  show ?case
  proof (cases "i < length s")
    case False
    then show ?thesis by (simp add: scan_stop)
  next
    case il: True
    then have d: "drop i s = s ! i # drop (Suc i) s" by (simp add: Cons_nth_drop_Suc)
    show ?thesis
    proof (cases "s ! i = BACKSLASH \<and> i + 1 < length s")
      case True
      then have sl: "Suc i < length s" by simp
      have d2: "drop (Suc i) s = s ! (Suc i) # drop (Suc (Suc i)) s"
        by (rule Cons_nth_drop_Suc[OF sl, symmetric])
      have "total_text (scan s i st) = total_text (st\<lparr>buf := buf st @ [s ! (i + 1)]\<rparr>) @ strip_markup (drop (i + 2) s)"
        using "1.IH"(1)[OF il True] scan_escape[OF il True] by simp
      also have "\<dots> = total_text st @ strip_markup (drop i s)"
        using True by (simp add: d d2 total_text_def)
      finally show ?thesis .
    next
      case nb: False
      show ?thesis
      proof (cases "startswith s MD_BOLD i")
        case True
        then have sb: "Suc i < length s" "s ! i = CHR ''*''" "s ! Suc i = CHR ''*''"
          by (simp_all add: startswith_bold)
        have c: "startswith s MD_BOLD i \<and> is_boundary s i \<and> is_boundary s (i + length MD_BOLD)"
          using True sb by (simp add: is_boundary_star_left is_boundary_star_right MD_BOLD_def)
        have d2: "drop (Suc i) s = s ! (Suc i) # drop (Suc (Suc i)) s"
          by (rule Cons_nth_drop_Suc[OF sb(1), symmetric])
        have t: "total_text ((flush st)\<lparr>bold_on := \<not> bold_on st\<rparr>) = total_text st"
          using total_text_flush[of st] by (simp add: total_text_def)
        have "total_text (scan s i st) = total_text st @ strip_markup (drop (i + length MD_BOLD) s)"
          using "1.IH"(2)[OF il nb c] scan_bold[OF il nb c] t by simp
        also have "\<dots> = total_text st @ strip_markup (drop i s)"
          using sb by (simp add: d d2 MD_BOLD_def strip_markup_star star_not_backslash)
        finally show ?thesis .
      next
        case nbold: False
        then have nc: "\<not> (startswith s MD_BOLD i \<and> is_boundary s i \<and> is_boundary s (i + length MD_BOLD))"
          by simp
        show ?thesis
        proof (cases "s ! i = CHR ''*''")
          case True
          have c: "[s ! i] = MD_ITALIC \<and> is_boundary s i \<and> is_boundary s (i + 1)"
            using True by (simp add: is_boundary_star_left is_boundary_star_right MD_ITALIC_def)
          have t: "total_text ((flush st)\<lparr>italic_on := \<not> italic_on st\<rparr>) = total_text st"
            using total_text_flush[of st] by (simp add: total_text_def)
          have "total_text (scan s i st) = total_text st @ strip_markup (drop (i + 1) s)"
            using "1.IH"(3)[OF il nb nc c] scan_italic[OF il nb nc c] t by simp
          also have "\<dots> = total_text st @ strip_markup (drop i s)"
            using True by (simp add: d strip_markup_star star_not_backslash)
          finally show ?thesis .
        next
          case ns: False
          then have ni: "\<not> ([s ! i] = MD_ITALIC \<and> is_boundary s i \<and> is_boundary s (i + 1))"
            by (simp add: MD_ITALIC_def)
          have sm: "strip_markup (s ! i # drop (Suc i) s) = s ! i # strip_markup (drop (Suc i) s)"
          proof (cases "s ! i = BACKSLASH")
            case True
            with nb have "drop (Suc i) s = []" by simp
            with True show ?thesis using star_not_backslash by (simp add: strip_markup_last_backslash)
          next
            case False
            with ns show ?thesis by (simp add: strip_markup_other)
          qed
          have "total_text (scan s i st) = total_text (st\<lparr>buf := buf st @ [s ! i]\<rparr>) @ strip_markup (drop (i + 1) s)"
            using "1.IH"(4)[OF il nb nc ni] scan_literal[OF il nb nc ni] by simp
          also have "\<dots> = total_text st @ strip_markup (drop i s)"
            using sm by (simp add: d total_text_def)
          finally show ?thesis .
        qed
      qed
    qed
  qed
qed

lemma parse_markdown_concat:
  "concat (map run_text (parse_markdown (Some s))) = strip_markup s"
proof -
  have "total_text (scan_all s) = strip_markup s"
    using scan_total_text[of s 0 init_pstate]
    by (simp add: scan_all_def total_text_flush) (simp add: total_text_def init_pstate_def)
  moreover have "buf (scan_all s) = []" by (simp add: scan_all_def buf_flush)
  ultimately have c: "concat (map run_text (runs (scan_all s))) = strip_markup s"
    by (simp add: total_text_def)
  show ?thesis
  proof (cases "s = []")
    case True
    then show ?thesis by (simp add: parse_markdown_def plain_def)
  next
    case False
    then show ?thesis using c by (auto simp: parse_markdown_def plain_def)
  qed
qed

lemma scan_no_star:
  "CHR ''*'' \<notin> set (drop i s) \<Longrightarrow> scan s i st = st\<lparr>buf := buf st @ strip_markup (drop i s)\<rparr>"
proof (induction s i st rule: scan.induct)
  case (1 s i st)
  show ?case
  proof (cases "i < length s")
    case False
    then show ?thesis by (simp add: scan_stop)
  next
    case il: True
    then have d: "drop i s = s ! i # drop (Suc i) s" by (simp add: Cons_nth_drop_Suc)
    with "1.prems" have ns: "s ! i \<noteq> CHR ''*''" and nr: "CHR ''*'' \<notin> set (drop (Suc i) s)"
      by auto
    show ?thesis
    proof (cases "s ! i = BACKSLASH \<and> i + 1 < length s")
      case True
      then have sl: "Suc i < length s" by simp
      have d2: "drop (Suc i) s = s ! (Suc i) # drop (Suc (Suc i)) s"
        by (rule Cons_nth_drop_Suc[OF sl, symmetric])
      with nr have nr2: "CHR ''*'' \<notin> set (drop (i + 2) s)" by auto
      show ?thesis
        using "1.IH"(1)[OF il True nr2] scan_escape[OF il True] True
        by (simp add: d d2)
    next
      case nb: False
      have nc: "\<not> (startswith s MD_BOLD i \<and> is_boundary s i \<and> is_boundary s (i + length MD_BOLD))"
        using ns by (simp add: startswith_bold)
      have ni: "\<not> ([s ! i] = MD_ITALIC \<and> is_boundary s i \<and> is_boundary s (i + 1))"
        using ns by (simp add: MD_ITALIC_def)
      have sm: "strip_markup (s ! i # drop (Suc i) s) = s ! i # strip_markup (drop (Suc i) s)"
      proof (cases "s ! i = BACKSLASH")
        case True
        with nb have "drop (Suc i) s = []" by simp
        with True show ?thesis using star_not_backslash by (simp add: strip_markup_last_backslash)
      next
        case False
        with ns show ?thesis by (simp add: strip_markup_other)
      qed
      have nr1: "CHR ''*'' \<notin> set (drop (i + 1) s)" using nr by simp
      show ?thesis
        using "1.IH"(4)[OF il nb nc ni nr1] scan_literal[OF il nb nc ni] sm
        by (simp add: d)
    qed
  qed
qed

lemma strip_markup_nonempty:
  "s \<noteq> [] \<Longrightarrow> CHR ''*'' \<notin> set s \<Longrightarrow> strip_markup s \<noteq> []"
  by (induction s rule: strip_markup.induct) auto

lemma strip_markup_plain:
  "CHR ''*'' \<notin> set s \<Longrightarrow> BACKSLASH \<notin> set s \<Longrightarrow> strip_markup s = s"
  by (induction s rule: strip_markup.induct) auto

lemma parse_markdown_no_star:
  assumes "CHR ''*'' \<notin> set s"
  shows "parse_markdown (Some s) = [plain (strip_markup s)]"
proof (cases "s = []")
  case True
  then show ?thesis by (simp add: parse_markdown_def)
next
  case False
  have "scan s 0 init_pstate = init_pstate\<lparr>buf := strip_markup s\<rparr>"
    using scan_no_star[of 0 s init_pstate] assms by (simp add: init_pstate_def)
  moreover have "strip_markup s \<noteq> []" using False assms by (rule strip_markup_nonempty)
  ultimately have "scan_all s = \<lparr>runs = [plain (strip_markup s)], bold_on = False, italic_on = False, buf = []\<rparr>"
    by (simp add: scan_all_def flush_def init_pstate_def plain_def)
  then show ?thesis using False by (simp add: parse_markdown_def)
qed

text \<open>
  Claim C7 (markdown round-trip), as the code has it. For every input without an
  asterisk, \<open>parse_markdown\<close> returns exactly one plain run whose text is the input
  with every escape pair (a backslash and the character after it) replaced by the escaped
  character; that text is the input itself when the input has no backslash either. For
  every input with no marker inside a word and with no delimiter left open, the
  concatenation of the texts of the returned runs is the input with the delimiter markers
  removed and the escape pairs replaced in the same way.
\<close>

theorem parse_markdown_round_trip:
  "(CHR ''*'' \<notin> set s \<longrightarrow> parse_markdown (Some s) = [plain (strip_markup s)]) \<and>
   (CHR ''*'' \<notin> set s \<and> BACKSLASH \<notin> set s \<longrightarrow> parse_markdown (Some s) = [plain s]) \<and>
   (\<not> marker_inside_word s \<and> \<not> ends_unbalanced s \<longrightarrow>
      concat (map run_text (parse_markdown (Some s))) = strip_markup s)"
  using parse_markdown_no_star[of s] strip_markup_plain[of s] parse_markdown_concat[of s]
  by simp

text \<open>
  The round-trip theorem at three inputs: an escape pair, a plain sentence, and a
  sentence with balanced bold and italic markers.
\<close>

theorem parse_markdown_round_trip_witness:
  "CHR ''*'' \<notin> set [CHR ''a'', BACKSLASH, CHR ''b''] \<and>
   parse_markdown (Some [CHR ''a'', BACKSLASH, CHR ''b'']) = [plain ''ab''] \<and>
   CHR ''*'' \<notin> set ''Hello World'' \<and> BACKSLASH \<notin> set ''Hello World'' \<and>
   parse_markdown (Some ''Hello World'') = [plain ''Hello World''] \<and>
   \<not> marker_inside_word ''Plain **bold** and *italic* text'' \<and>
   \<not> ends_unbalanced ''Plain **bold** and *italic* text'' \<and>
   concat (map run_text (parse_markdown (Some ''Plain **bold** and *italic* text'')))
     = ''Plain bold and italic text''"
proof -
  have a: "CHR ''*'' \<notin> set [CHR ''a'', BACKSLASH, CHR ''b'']" by (simp add: BACKSLASH_def)
  have b: "CHR ''*'' \<notin> set ''Hello World''" "BACKSLASH \<notin> set ''Hello World''"
    by (simp_all add: BACKSLASH_def)
  have c: "\<not> marker_inside_word ''Plain **bold** and *italic* text''"
    by (simp add: isalnum_def)
  have d: "\<not> ends_unbalanced ''Plain **bold** and *italic* text''"
    by code_simp
  have e: "strip_markup [CHR ''a'', BACKSLASH, CHR ''b''] = ''ab''"
    by (simp add: BACKSLASH_def)
  have f: "strip_markup ''Plain **bold** and *italic* text'' = ''Plain bold and italic text''"
    by (simp add: BACKSLASH_def)
  have "parse_markdown (Some [CHR ''a'', BACKSLASH, CHR ''b''])
          = [plain (strip_markup [CHR ''a'', BACKSLASH, CHR ''b''])]"
    using a parse_markdown_round_trip[of "[CHR ''a'', BACKSLASH, CHR ''b'']"] by blast
  then have r1: "parse_markdown (Some [CHR ''a'', BACKSLASH, CHR ''b'']) = [plain ''ab'']"
    by (simp only: e)
  have r2: "parse_markdown (Some ''Hello World'') = [plain ''Hello World'']"
    using b parse_markdown_round_trip[of "''Hello World''"] by blast
  have "concat (map run_text (parse_markdown (Some ''Plain **bold** and *italic* text'')))
          = strip_markup ''Plain **bold** and *italic* text''"
    using c d parse_markdown_round_trip[of "''Plain **bold** and *italic* text''"] by blast
  then have r3: "concat (map run_text (parse_markdown (Some ''Plain **bold** and *italic* text'')))
          = ''Plain bold and italic text''"
    by (simp only: f)
  from a r1 b r2 c d r3 show ?thesis by blast
qed

text \<open>
  Claim C7 as stated fails on escapes: the three-character input \<open>a\b\<close> has no
  delimiter, yet the returned run is \<open>ab\<close>; and the escaped asterisk of \<open>\*a\<close> is
  kept, not removed.
\<close>

theorem parse_markdown_round_trip_counterexample:
  "CHR ''*'' \<notin> set [CHR ''a'', BACKSLASH, CHR ''b''] \<and>
   parse_markdown (Some [CHR ''a'', BACKSLASH, CHR ''b'']) \<noteq> [plain [CHR ''a'', BACKSLASH, CHR ''b'']] \<and>
   concat (map run_text (parse_markdown (Some [BACKSLASH, CHR ''*'', CHR ''a'']))) = ''*a''"
  by code_simp

text \<open>
  Claim C2 (boundary immunity). The boundary test of \<open>parse_markdown\<close> reads the
  character at the marker's own position, which is an asterisk and never alphanumeric
  (lemmas \<open>is_boundary_star_left\<close> and \<open>is_boundary_star_right\<close>), so the test
  never fails and a marker inside a word toggles the style: \<open>fi*sh*ing\<close> comes back
  as three runs, the middle one italic, not as one plain run.
\<close>

theorem parse_markdown_inside_word_toggles:
  "parse_markdown (Some ''fi*sh*ing'') =
     [\<lparr>run_text = ''fi'', bold = False, italic = False\<rparr>,
      \<lparr>run_text = ''sh'', bold = False, italic = True\<rparr>,
      \<lparr>run_text = ''ing'', bold = False, italic = False\<rparr>]"
  by code_simp

text \<open>
  Claim C3 (unbalanced safety). With a delimiter left open, \<open>parse_markdown\<close> joins
  the texts of the runs it has collected, from which the markers are already gone: for
  \<open>Start **bold only\<close> the single plain run is \<open>Start bold only\<close>, not the
  original string.
\<close>

theorem parse_markdown_unbalanced_drops_markers:
  "parse_markdown (Some ''Start **bold only'') =
     [\<lparr>run_text = ''Start bold only'', bold = False, italic = False\<rparr>]"
  by code_simp

section \<open>Properties of font sizing and of the registry builder\<close>

lemma py_in_roles:
  "py_in ''title'' ''subtitle''" "\<not> py_in ''title'' ''body''" "\<not> py_in ''header'' ''body''"
  "\<not> py_in ''headline'' ''body''" "py_in ''body'' ''body''"
  "py_in ''title'' ''title''"
  "\<not> py_in ''title'' ''content''" "\<not> py_in ''header'' ''content''"
  "\<not> py_in ''headline'' ''content''" "\<not> py_in ''body'' ''content''" "py_in ''content'' ''content''"
  "\<not> py_in ''title'' ''footer''" "\<not> py_in ''header'' ''footer''"
  "\<not> py_in ''headline'' ''footer''" "\<not> py_in ''body'' ''footer''"
  "\<not> py_in ''content'' ''footer''" "\<not> py_in ''subtitle'' ''footer''" "py_in ''footer'' ''footer''"
  by simp_all

lemma lower_roles:
  "lower ''title'' = ''title''" "lower ''subtitle'' = ''subtitle''" "lower ''body'' = ''body''"
  "lower ''content'' = ''content''" "lower ''footer'' = ''footer''"
  by (simp_all add: lower_def lower_char_def)

lemmas font_consts =
  FONT_SIZE_TITLE_SLIDE_MAIN_def FONT_SIZE_TITLE_SLIDE_SUBTITLE_def FONT_SIZE_TITLE_SLIDE_FOOTER_def
  FONT_SIZE_TITLE_LARGE_def FONT_SIZE_TITLE_SMALL_def FONT_SIZE_BODY_LARGE_def
  FONT_SIZE_BODY_DEFAULT_def FONT_SIZE_CONTENT_LARGE_def FONT_SIZE_CONTENT_DEFAULT_def
  FONT_SIZE_FOOTER_def FONT_SIZE_FALLBACK_def AREA_THRESHOLD_TITLE_def AREA_THRESHOLD_BODY_def
  AREA_THRESHOLD_CONTENT_def

lemma determine_font_size_title_slide:
  "determine_font_size (Some ''title'') a ROLE_TITLE = 44"
  "determine_font_size (Some ''body'') a ROLE_TITLE = 28"
  "determine_font_size (Some ''footer'') a ROLE_TITLE = 11"
  by (simp_all add: determine_font_size_def lower_roles py_in_roles font_consts del: py_in.simps)


lemma determine_font_size_unknown:
  assumes "sl_role \<noteq> ROLE_TITLE"
    and "\<not> py_in ''title'' (lower r)" "\<not> py_in ''header'' (lower r)"
    and "\<not> py_in ''headline'' (lower r)" "\<not> py_in ''body'' (lower r)"
    and "\<not> py_in ''content'' (lower r)" "\<not> py_in ''footer'' (lower r)"
  shows "determine_font_size (Some r) a sl_role = 16"
  using assms by (simp add: determine_font_size_def font_consts del: py_in.simps)

text \<open>
  Claim C5 (font-size decision table). The rows of the table hold for the role hints
  \<open>title\<close>, \<open>body\<close>, \<open>content\<close> and \<open>footer\<close> (the three lemmas above), but
  not the subtitle row: on a title-role slide the role hint \<open>subtitle\<close> contains
  \<open>title\<close>, so the first branch answers and the size is 44, never the 28 of
  \<open>FONT_SIZE_TITLE_SLIDE_SUBTITLE\<close>, whatever the geometry.
\<close>

theorem determine_font_size_subtitle_on_title_slide:
  "determine_font_size (Some ''subtitle'') a ROLE_TITLE = 44"
  by (simp add: determine_font_size_def lower_roles py_in_roles font_consts del: py_in.simps)

text \<open>
  Claim C9. A shape whose position and size are all absent gets, for any slide
  dimensions, \<open>norm_top = norm_height = area_ratio = 0\<close> from the parser, and
  \<open>derive_role_hint\<close> then answers \<open>title\<close>.
\<close>

theorem zero_geometry_is_title:
  "norm_top (enrich_shape sw sh (s\<lparr>shape_left := None, shape_top := None, shape_width := None, shape_height := None\<rparr>)) = Some 0 \<and>
   norm_height (enrich_shape sw sh (s\<lparr>shape_left := None, shape_top := None, shape_width := None, shape_height := None\<rparr>)) = Some 0 \<and>
   area_ratio (enrich_shape sw sh (s\<lparr>shape_left := None, shape_top := None, shape_width := None, shape_height := None\<rparr>)) = Some 0 \<and>
   derive_role_hint (enrich_shape sw sh (s\<lparr>shape_left := None, shape_top := None, shape_width := None, shape_height := None\<rparr>)) = ''title''"
  by (simp add: enrich_shape_def derive_role_hint_def or0_def get0_def Let_def)

lemma derive_role_hint_zero:
  "get0 (norm_top sh) = 0 \<Longrightarrow> get0 (norm_height sh) = 0 \<Longrightarrow> derive_role_hint sh = ''title''"
  by (simp add: derive_role_hint_def)

lemma role_slots_regions:
  "role_slots r (enrich_roles shapes) = length (regions_of_role r shapes)"
  by (simp add: role_slots_def enrich_roles_def regions_of_role_def filter_map comp_def)

lemma image_slots_regions:
  "image_slots (enrich_roles shapes) > 0 \<longleftrightarrow> list_ex is_image_region shapes"
proof -
  have "image_slots (enrich_roles shapes) = length (filter is_image_region shapes)"
    by (simp add: image_slots_def enrich_roles_def is_image_region_def[abs_def] filter_map comp_def)
  then show ?thesis by (simp add: list_ex_iff filter_empty_conv)
qed

lemma large_title_regions:
  "list_ex (\<lambda>s. get0 (area_ratio (fst s)) > 5 / 100 \<and> snd s = ''title'') (enrich_roles shapes)
     \<longleftrightarrow> list_ex (\<lambda>sh. get0 (area_ratio sh) > 5 / 100) (regions_of_role ''title'' shapes)"
  by (auto simp: list_ex_iff enrich_roles_def regions_of_role_def)

text \<open>
  Claim C6 (layout purpose), as the code has it. A layout without regions is skipped. For
  any other layout the purpose follows the ordered rules: \<open>TITLE_SLIDE\<close> when there
  is at least one title region, no body region, at most one content region, and a title
  region covering more than 5 percent of the slide; otherwise \<open>VISUAL_SLIDE\<close> when a
  region's name contains \<open>Picture\<close>; otherwise \<open>COMPARISON_SLIDE\<close> when two or more
  regions have the content role; otherwise \<open>CONTENT_SLIDE\<close> when a region has the
  body role; otherwise \<open>GENERAL_CONTENT\<close>.
\<close>

theorem layout_purpose_rules:
  "analyze_layout shapes =
     (if shapes = [] then None
      else Some
        (if title_layout shapes then ''TITLE_SLIDE''
         else if list_ex is_image_region shapes then ''VISUAL_SLIDE''
         else if length (regions_of_role ''content'' shapes) \<ge> 2 then ''COMPARISON_SLIDE''
         else if regions_of_role ''body'' shapes \<noteq> [] then ''CONTENT_SLIDE''
         else ''GENERAL_CONTENT''))"
proof -
  have t: "(1 \<le> length (regions_of_role ''title'' shapes) \<and>
            length (regions_of_role ''body'' shapes) = 0 \<and>
            length (regions_of_role ''content'' shapes) \<le> 1) \<and>
       list_ex (\<lambda>s. get0 (area_ratio (fst s)) > 5 / 100 \<and> snd s = ''title'') (enrich_roles shapes)
       \<longleftrightarrow> title_layout shapes"
    unfolding large_title_regions title_layout_def
    by (cases "regions_of_role ''title'' shapes") auto
  have b: "1 \<le> length (regions_of_role ''body'' shapes) \<longleftrightarrow> regions_of_role ''body'' shapes \<noteq> []"
    by (cases "regions_of_role ''body'' shapes") auto
  show ?thesis
    unfolding analyze_layout_def layout_purpose_def Let_def
    by (simp only: role_slots_regions image_slots_regions t b conj_absorb)
qed

text \<open>
  Claim C6 as stated fails: a layout whose only region is a title covering 4 percent of
  the slide is a title-only region set, and its purpose is \<open>GENERAL_CONTENT\<close>.
\<close>

theorem layout_purpose_counterexample:
  "regions_of_role ''title'' [small_title] = [small_title] \<and>
   analyze_layout [small_title] = Some ''GENERAL_CONTENT''"
  by (simp add: regions_of_role_def analyze_layout_def layout_purpose_def derive_role_hint_def
      small_title_def get0_def enrich_roles_def role_slots_def image_slots_def Let_def)

section \<open>Properties of the circle fit\<close>

lemma gt_two_sqrt:
  fixes x d :: real
  assumes "0 \<le> d"
  shows "x > 2 * sqrt d \<longleftrightarrow> x > 0 \<and> x * x > 4 * d"
proof -
  have e: "2 * sqrt d = sqrt (4 * d)" by (simp add: real_sqrt_mult)
  have s0: "0 \<le> sqrt (4 * d)" using assms by simp
  show ?thesis
  proof
    assume a: "x > 2 * sqrt d"
    then have x0: "x > 0" using s0 e by linarith
    then have "sqrt (x * x) = x" by simp
    with a e have "sqrt (4 * d) < sqrt (x * x)" by simp
    then have "4 * d < x * x" by (simp only: real_sqrt_less_iff)
    with x0 show "x > 0 \<and> x * x > 4 * d" by simp
  next
    assume a: "x > 0 \<and> x * x > 4 * d"
    then have "sqrt (4 * d) < sqrt (x * x)" by (simp only: real_sqrt_less_iff)
    moreover have "sqrt (x * x) = x" using a by simp
    ultimately show "x > 2 * sqrt d" using e by simp
  qed
qed

lemma exceeds_chord:
  "x > calculate_chord_width y r 0 \<longleftrightarrow>
     (if r \<le> 0 then x > 0 else if \<bar>y\<bar> \<ge> r then x > 0
      else x > 0 \<and> x * x > 4 * (r * r - \<bar>y\<bar> * \<bar>y\<bar>))"
proof (cases "r \<le> 0 \<or> \<bar>y\<bar> \<ge> r")
  case True
  then show ?thesis by (auto simp: calculate_chord_width_def)
next
  case False
  then have r: "0 < r" "\<bar>y\<bar> < r" by auto
  then have "\<bar>y\<bar> * \<bar>y\<bar> < r * r" by (intro mult_strict_mono') simp_all
  then have nn: "0 \<le> r * r - \<bar>y\<bar> * \<bar>y\<bar>" by simp
  then have s0: "0 \<le> 2 * sqrt (r * r - \<bar>y\<bar> * \<bar>y\<bar>)" by simp
  have c: "calculate_chord_width y r 0 = 2 * sqrt (r * r - \<bar>y\<bar> * \<bar>y\<bar>)"
    using r s0 by (simp add: calculate_chord_width_def)
  have "x > 2 * sqrt (r * r - \<bar>y\<bar> * \<bar>y\<bar>) \<longleftrightarrow>
        x > 0 \<and> x * x > 4 * (r * r - \<bar>y\<bar> * \<bar>y\<bar>)"
    by (rule gt_two_sqrt[OF nn])
  then show ?thesis
    using r unfolding c by (simp only: if_False not_le[symmetric])
qed

lemma line_too_wide_eval:
  "line_too_wide m cur y lh r \<longleftrightarrow>
     (if r \<le> 0 then line_width m cur > 0 else if \<bar>y + lh / 2\<bar> \<ge> r then line_width m cur > 0
      else line_width m cur > 0 \<and>
           line_width m cur * line_width m cur > 4 * (r * r - \<bar>y + lh / 2\<bar> * \<bar>y + lh / 2\<bar>))"
  unfolding line_too_wide_def by (rule exceeds_chord)

lemmas fit_consts = TEXT_PADDING_RATIO_def FONT_SIZE_MIN_def FONT_SIZE_MAX_def FIT_PRECISION_def
  CHAR_WIDTH_RATIO_def LINE_HEIGHT_RATIO_def

lemma split_hi: "py_split ''Hi'' = [''Hi'']"
  by (simp add: py_split_def isspace_def)

lemma split_long: "py_split ''Exceptionally High Performance Rating''
   = [''Exceptionally'', ''High'', ''Performance'', ''Rating'']"
  by (simp add: py_split_def isspace_def)

lemma fits_hi: "fits_font ''Hi'' (9 / 100) 40"
  by (simp add: fits_font_def split_hi fit_consts)

lemma fits_long_40: "\<not> fits_font ''Exceptionally High Performance Rating'' (9 / 100) 40"
  by (simp add: fits_font_def split_long fit_consts line_width_def line_too_wide_eval)

lemma search_stop: "\<not> mx - mn > FIT_PRECISION \<Longrightarrow> search f mn mx b = b"
  by (subst search.simps) (simp only: if_False)

lemma search_fit:
  "mx - mn > FIT_PRECISION \<Longrightarrow> f ((mn + mx) / 2) \<Longrightarrow>
   search f mn mx b = search f ((mn + mx) / 2) mx ((mn + mx) / 2)"
  by (subst search.simps) (simp only: if_True)

lemma search_nofit:
  "mx - mn > FIT_PRECISION \<Longrightarrow> \<not> f ((mn + mx) / 2) \<Longrightarrow>
   search f mn mx b = search f mn ((mn + mx) / 2) b"
  by (subst search.simps) (simp only: if_True if_False)

lemma search_result:
  "search f mn mx b = b \<or> (mn < search f mn mx b \<and> search f mn mx b < mx)"
proof (induction f mn mx b rule: search.induct)
  case (1 f mn mx b)
  show ?case
  proof (cases "mx - mn > FIT_PRECISION")
    case False
    then show ?thesis by (simp add: search_stop)
  next
    case True
    then have lt: "mn < (mn + mx) / 2" "(mn + mx) / 2 < mx"
      by (simp_all add: FIT_PRECISION_def field_simps)
    show ?thesis
    proof (cases "f ((mn + mx) / 2)")
      case True
      with "1.IH"(1)[OF \<open>mx - mn > FIT_PRECISION\<close> True] search_fit[where f=f and mn=mn and mx=mx and b=b, OF \<open>mx - mn > FIT_PRECISION\<close> True] lt
      show ?thesis by auto
    next
      case False
      with "1.IH"(2)[OF \<open>mx - mn > FIT_PRECISION\<close> False] search_nofit[where f=f and mn=mn and mx=mx and b=b, OF \<open>mx - mn > FIT_PRECISION\<close> False] lt
      show ?thesis by auto
    qed
  qed
qed

lemma search_ge_best: "b \<le> mn \<Longrightarrow> b \<le> search f mn mx b"
  using search_result[of f mn mx b] by auto

lemma search_mono:
  "(\<forall>m. mn \<le> m \<longrightarrow> A m \<longrightarrow> B m) \<Longrightarrow> b \<le> mn \<Longrightarrow> search A mn mx b \<le> search B mn mx b"
proof (induction A mn mx b rule: search.induct)
  case (1 A mn mx b)
  show ?case
  proof (cases "mx - mn > FIT_PRECISION")
    case False
    then show ?thesis by (simp add: search_stop)
  next
    case c: True
    let ?mid = "(mn + mx) / 2"
    from c have lt: "mn < ?mid" "?mid < mx"
      by (simp_all add: FIT_PRECISION_def field_simps)
    show ?thesis
    proof (cases "A ?mid")
      case True
      with "1.prems"(1) lt have bm: "B ?mid" by simp
      have imp: "\<forall>m. ?mid \<le> m \<longrightarrow> A m \<longrightarrow> B m" using "1.prems"(1) lt by auto
      have "search A ?mid mx ?mid \<le> search B ?mid mx ?mid"
        by (rule "1.IH"(1)[OF c True imp]) simp
      then show ?thesis
        by (simp only: search_fit[where f=A and mn=mn and mx=mx and b=b, OF c True] search_fit[where f=B and mn=mn and mx=mx and b=b, OF c bm])
    next
      case na: False
      show ?thesis
      proof (cases "B ?mid")
        case False
        have "search A mn ?mid b \<le> search B mn ?mid b"
          by (rule "1.IH"(2)[OF c na "1.prems"(1) "1.prems"(2)])
        then show ?thesis
          by (simp only: search_nofit[where f=A and mn=mn and mx=mx and b=b, OF c na] search_nofit[where f=B and mn=mn and mx=mx and b=b, OF c False])
      next
        case True
        have "search A mn ?mid b \<le> ?mid"
          using search_result[of A mn ?mid b] "1.prems"(2) lt by auto
        moreover have "?mid \<le> search B ?mid mx ?mid"
          by (rule search_ge_best) simp
        ultimately show ?thesis
          by (simp only: search_nofit[where f=A and mn=mn and mx=mx and b=b, OF c na] search_fit[where f=B and mn=mn and mx=mx and b=b, OF c True])
      qed
    qed
  qed
qed

lemma wrap_words_result:
  "0 \<le> lh \<Longrightarrow> wrap_words m R lh ws cur y = (f, c, y') \<Longrightarrow>
   y \<le> y' \<and> (cur \<noteq> [] \<or> ws \<noteq> [] \<longrightarrow> c \<noteq> [])"
proof (induction ws arbitrary: cur y)
  case Nil
  then show ?case by simp
next
  case (Cons w ws)
  show ?case
  proof (cases "cur \<noteq> [] \<and> line_too_wide m cur y lh R")
    case True
    show ?thesis
    proof (cases "y + lh + lh > R")
      case over: True
      with True Cons.prems show ?thesis by auto
    next
      case False
      with True Cons.prems(2) have "wrap_words m R lh ws [w] (y + lh) = (f, c, y')" by simp
      from Cons.IH[OF Cons.prems(1) this] Cons.prems(1) show ?thesis by auto
    qed
  next
    case False
    with Cons.prems(2) have "wrap_words m R lh ws (cur @ [w]) y = (f, c, y')" by auto
    from Cons.IH[OF Cons.prems(1) this] show ?thesis by auto
  qed
qed

lemma wrap_words_append:
  "wrap_words m R lh (xs @ ys) cur y =
     (case wrap_words m R lh xs cur y of
        (f, c, y') \<Rightarrow> if f then wrap_words m R lh ys c y' else (f, c, y'))"
  by (induction xs arbitrary: cur y) auto

lemma fits_font_prefix:
  assumes m: "0 \<le> m"
    and p: "take (length (py_split s)) (py_split t) = py_split s"
    and f: "fits_font t R m"
  shows "fits_font s R m"
proof -
  let ?lh = "m * LINE_HEIGHT_RATIO / 720"
  have lh: "0 \<le> ?lh" using m by (simp add: LINE_HEIGHT_RATIO_def)
  obtain ys where t: "py_split t = py_split s @ ys"
    using p by (metis append_take_drop_id)
  obtain f1 c1 y1 where w1: "wrap_words m R ?lh (py_split s) [] (- R) = (f1, c1, y1)"
    by (cases "wrap_words m R ?lh (py_split s) [] (- R)") auto
  show ?thesis
  proof (cases f1)
    case False
    with w1 t have "wrap_words m R ?lh (py_split t) [] (- R) = (False, c1, y1)"
      by (simp add: wrap_words_append)
    with f show ?thesis by (simp add: fits_font_def)
  next
    case True
    obtain f2 c2 y2 where w2: "wrap_words m R ?lh ys c1 y1 = (f2, c2, y2)"
      by (cases "wrap_words m R ?lh ys c1 y1") auto
    with w1 t True have wt: "wrap_words m R ?lh (py_split t) [] (- R) = (f2, c2, y2)"
      by (simp add: wrap_words_append)
    from wrap_words_result[OF lh w2] have y: "y1 \<le> y2" and c: "c1 \<noteq> [] \<longrightarrow> c2 \<noteq> []" by auto
    show ?thesis
    proof (cases "c1 = []")
      case e: True
      with w1 True show ?thesis by (simp add: fits_font_def)
    next
      case ne: False
      with c have "c2 \<noteq> []" by simp
      with f wt have "\<not> (y2 + ?lh > R)" by (auto simp: fits_font_def split: if_splits)
      with y have "\<not> (y1 + ?lh > R)" by simp
      with w1 True ne show ?thesis by (simp add: fits_font_def)
    qed
  qed
qed

lemma fits_font_single:
  assumes m: "0 \<le> m"
    and s: "length (py_split s) \<le> 1"
    and t: "py_split t \<noteq> []"
    and f: "fits_font t R m"
  shows "fits_font s R m"
proof -
  let ?lh = "m * LINE_HEIGHT_RATIO / 720"
  have lh: "0 \<le> ?lh" using m by (simp add: LINE_HEIGHT_RATIO_def)
  obtain f2 c2 y2 where wt: "wrap_words m R ?lh (py_split t) [] (- R) = (f2, c2, y2)"
    by (cases "wrap_words m R ?lh (py_split t) [] (- R)") auto
  from wrap_words_result[OF lh wt] t have y: "- R \<le> y2" and c: "c2 \<noteq> []" by auto
  from f wt c have ok: "\<not> (y2 + ?lh > R)" by (auto simp: fits_font_def split: if_splits)
  show ?thesis
  proof (cases "py_split s")
    case Nil
    then show ?thesis by (simp add: fits_font_def)
  next
    case (Cons w ws)
    with s have "py_split s = [w]" by simp
    then show ?thesis using ok y by (simp add: fits_font_def)
  qed
qed

lemma fits_font_leading:
  "0 \<le> m \<Longrightarrow> leading_words s t \<Longrightarrow> fits_font t R m \<Longrightarrow> fits_font s R m"
  unfolding leading_words_def using fits_font_prefix fits_font_single by blast

lemma py_int_mono: "0 \<le> x \<Longrightarrow> x \<le> y \<Longrightarrow> py_int x \<le> py_int y"
  by (simp add: py_int_def floor_mono)

lemma fit_text_in_circle_ge_min:
  "py_int FONT_SIZE_MIN \<le> fit_text_in_circle t rs rad p"
proof -
  have "FONT_SIZE_MIN \<le> search f FONT_SIZE_MIN FONT_SIZE_MAX FONT_SIZE_MIN" for f
    by (rule search_ge_best) simp
  then have "py_int FONT_SIZE_MIN \<le> py_int (search f FONT_SIZE_MIN FONT_SIZE_MAX FONT_SIZE_MIN)" for f
    by (intro py_int_mono) (simp_all add: FONT_SIZE_MIN_def)
  then show ?thesis by (simp add: fit_text_in_circle_def)
qed

lemma fit_leading_words:
  assumes "s \<noteq> []" and "leading_words s t"
  shows "fit_text_in_circle t rs rad p \<le> fit_text_in_circle s rs' rad p"
proof (cases "t = [] \<or> rad \<le> 0 \<or> rad * (1 - p) \<le> 0")
  case True
  then have "fit_text_in_circle t rs rad p = py_int FONT_SIZE_MIN"
    by (auto simp: fit_text_in_circle_def)
  then show ?thesis using fit_text_in_circle_ge_min[of s rs' rad p] by simp
next
  case False
  let ?R = "rad * (1 - p)"
  have imp: "\<forall>m. FONT_SIZE_MIN \<le> m \<longrightarrow> fits_font t ?R m \<longrightarrow> fits_font s ?R m"
    using fits_font_leading[OF _ assms(2)] by (auto simp: FONT_SIZE_MIN_def)
  have le: "search (fits_font t ?R) FONT_SIZE_MIN FONT_SIZE_MAX FONT_SIZE_MIN
        \<le> search (fits_font s ?R) FONT_SIZE_MIN FONT_SIZE_MAX FONT_SIZE_MIN"
    by (rule search_mono[OF imp]) simp
  have "0 \<le> search (fits_font t ?R) FONT_SIZE_MIN FONT_SIZE_MAX FONT_SIZE_MIN"
    using search_ge_best[of FONT_SIZE_MIN FONT_SIZE_MIN "fits_font t ?R" FONT_SIZE_MAX]
    by (simp add: FONT_SIZE_MIN_def)
  from py_int_mono[OF this le] show ?thesis
    using False assms(1) by (simp add: fit_text_in_circle_def)
qed

lemma fit_below_40:
  assumes "\<not> fits_font t (9 / 100) 40"
  shows "fit_text_in_circle t rs (1 / 10) TEXT_PADDING_RATIO < 40"
proof (cases "t = []")
  case True
  then show ?thesis by (simp add: fit_text_in_circle_def py_int_def FONT_SIZE_MIN_def)
next
  case False
  have c: "FONT_SIZE_MAX - FONT_SIZE_MIN > FIT_PRECISION" and mid: "(FONT_SIZE_MIN + FONT_SIZE_MAX) / 2 = 40"
    by (simp_all add: fit_consts)
  have "search (fits_font t (9 / 100)) FONT_SIZE_MIN FONT_SIZE_MAX FONT_SIZE_MIN
          = search (fits_font t (9 / 100)) FONT_SIZE_MIN 40 FONT_SIZE_MIN"
    using search_nofit[where f="fits_font t (9 / 100)" and mn=FONT_SIZE_MIN and mx=FONT_SIZE_MAX and b=FONT_SIZE_MIN, OF c] assms by (simp add: mid)
  moreover have "search (fits_font t (9 / 100)) FONT_SIZE_MIN 40 FONT_SIZE_MIN < 40"
    using search_result[of "fits_font t (9 / 100)" FONT_SIZE_MIN 40 FONT_SIZE_MIN]
    by (auto simp: FONT_SIZE_MIN_def)
  moreover have "0 \<le> search (fits_font t (9 / 100)) FONT_SIZE_MIN 40 FONT_SIZE_MIN"
    using search_ge_best[of FONT_SIZE_MIN FONT_SIZE_MIN "fits_font t (9 / 100)" 40]
    by (simp add: FONT_SIZE_MIN_def)
  ultimately have "py_int (search (fits_font t (9 / 100)) FONT_SIZE_MIN FONT_SIZE_MAX FONT_SIZE_MIN) < 40"
    by (simp add: py_int_def floor_less_iff)
  then show ?thesis using False by (simp add: fit_text_in_circle_def TEXT_PADDING_RATIO_def)
qed

lemma fit_at_least_40:
  assumes "t \<noteq> []" "fits_font t (9 / 100) 40"
  shows "40 \<le> fit_text_in_circle t rs (1 / 10) TEXT_PADDING_RATIO"
proof -
  have c: "FONT_SIZE_MAX - FONT_SIZE_MIN > FIT_PRECISION" and mid: "(FONT_SIZE_MIN + FONT_SIZE_MAX) / 2 = 40"
    by (simp_all add: fit_consts)
  have "search (fits_font t (9 / 100)) FONT_SIZE_MIN FONT_SIZE_MAX FONT_SIZE_MIN
          = search (fits_font t (9 / 100)) 40 FONT_SIZE_MAX 40"
    using search_fit[where f="fits_font t (9 / 100)" and mn=FONT_SIZE_MIN and mx=FONT_SIZE_MAX and b=FONT_SIZE_MIN, OF c] assms by (simp add: mid)
  moreover have "40 \<le> search (fits_font t (9 / 100)) 40 FONT_SIZE_MAX 40"
    by (rule search_ge_best) simp
  ultimately have "40 \<le> py_int (search (fits_font t (9 / 100)) FONT_SIZE_MIN FONT_SIZE_MAX FONT_SIZE_MIN)"
    by (simp add: py_int_def le_floor_iff)
  then show ?thesis using assms(1) by (simp add: fit_text_in_circle_def TEXT_PADDING_RATIO_def)
qed

text \<open>
  Claim C4 (circle-fit ordering), as the code has it, in real arithmetic. For the same
  circle (same radius and padding ratio), a non-empty string \<open>s\<close> is never fitted
  with a smaller font size than a string \<open>t\<close> whenever the words of \<open>s\<close> are the
  leading words of \<open>t\<close>, or \<open>s\<close> has one word at most and \<open>t\<close> has at least one;
  the styled runs play no part. In particular, with radius 0.1 the fitted size of
  \<open>Exceptionally High Performance Rating\<close> is strictly less than that of \<open>Hi\<close>.
\<close>

theorem circle_fit_ordering:
  "(s \<noteq> [] \<and> leading_words s t \<longrightarrow>
      fit_text_in_circle t rs rad p \<le> fit_text_in_circle s rs' rad p) \<and>
   fit_text_in_circle ''Exceptionally High Performance Rating'' rs (1 / 10) TEXT_PADDING_RATIO
     < fit_text_in_circle ''Hi'' rs' (1 / 10) TEXT_PADDING_RATIO"
proof -
  have "fit_text_in_circle ''Exceptionally High Performance Rating'' rs (1 / 10) TEXT_PADDING_RATIO < 40"
    by (rule fit_below_40[OF fits_long_40])
  moreover have "40 \<le> fit_text_in_circle ''Hi'' rs' (1 / 10) TEXT_PADDING_RATIO"
    by (rule fit_at_least_40[OF _ fits_hi]) simp
  ultimately show ?thesis using fit_leading_words[of s t rs rad p rs'] by auto
qed

text \<open>
  The ordering at \<open>One Two\<close> and \<open>One Two Three Four Five\<close>, radius 0.1.
\<close>

theorem circle_fit_ordering_witness:
  "''One Two'' \<noteq> [] \<and> leading_words ''One Two'' ''One Two Three Four Five'' \<and>
   fit_text_in_circle ''One Two Three Four Five'' [] (1 / 10) TEXT_PADDING_RATIO
     \<le> fit_text_in_circle ''One Two'' [] (1 / 10) TEXT_PADDING_RATIO"
proof -
  have a: "''One Two'' \<noteq> []" by simp
  have b: "leading_words ''One Two'' ''One Two Three Four Five''"
    by (simp add: leading_words_def py_split_def isspace_def)
  from a b circle_fit_ordering[of "''One Two''" "''One Two Three Four Five''" "[]" "1 / 10" TEXT_PADDING_RATIO "[]"]
  show ?thesis by blast
qed

text \<open>
  The ordering does not follow the lengths of the strings: a single word is never
  wrapped, so at radius 0.1 the 34 characters of \<open>Supercalifragilisticexpialidocious\<close>
  are fitted at 40pt or more, while the 23 characters of \<open>One Two Three Four Five\<close> do
  not fit at 40pt and end below it.
\<close>

lemma split_five: "py_split ''One Two Three Four Five'' = [''One'', ''Two'', ''Three'', ''Four'', ''Five'']"
  by (simp add: py_split_def isspace_def)

lemma split_super: "py_split ''Supercalifragilisticexpialidocious'' = [''Supercalifragilisticexpialidocious'']"
  by (simp add: py_split_def isspace_def)

lemma fits_five_40: "\<not> fits_font ''One Two Three Four Five'' (9 / 100) 40"
  by (simp add: fits_font_def split_five fit_consts line_width_def line_too_wide_eval)

lemma fits_super_40: "fits_font ''Supercalifragilisticexpialidocious'' (9 / 100) 40"
  by (simp add: fits_font_def split_super fit_consts)

text \<open>
  Claim C4 as stated fails: the shorter string gets the strictly smaller size.
\<close>

theorem circle_fit_ordering_counterexample:
  "length ''One Two Three Four Five'' < length ''Supercalifragilisticexpialidocious'' \<and>
   fit_text_in_circle ''One Two Three Four Five'' [] (1 / 10) TEXT_PADDING_RATIO
     < fit_text_in_circle ''Supercalifragilisticexpialidocious'' [] (1 / 10) TEXT_PADDING_RATIO"
proof -
  have "fit_text_in_circle ''One Two Three Four Five'' [] (1 / 10) TEXT_PADDING_RATIO < 40"
    by (rule fit_below_40[OF fits_five_40])
  moreover have "40 \<le> fit_text_in_circle ''Supercalifragilisticexpialidocious'' [] (1 / 10) TEXT_PADDING_RATIO"
    by (rule fit_at_least_40[OF _ fits_super_40]) simp
  ultimately show ?thesis by simp
qed

section \<open>Reading an integer\<close>

text \<open>
  \<open>int\<close> skips a space and a no-break space around the digits; a unit separator stays
  and makes it raise.
\<close>

lemma int_of_str_examples:
  "int_of_str '' 01 '' = Some 1"
  "int_of_str [CHR 0xA0, CHR ''7''] = Some 7"
  "int_of_str [CHR 0x1F, CHR ''7''] = None"
  "py_strip [CHR 0x1F, CHR ''7''] = ''7''"
  by code_simp+

section \<open>Properties of the Beautifier node\<close>

lemma returned_simps [simp]:
  "returned (Inl e) = Inl e"
  "returned (Inr res) = Inr (fst res)"
  by (simp_all add: returned_def)


lemma set_alist_update: "set (AList.update k v al) \<subseteq> insert (k, v) (set al)"
  by (induction al) auto


lemma list_all_alist_update:
  "list_all P al \<Longrightarrow> P (k, v) \<Longrightarrow> list_all P (AList.update k v al)"
  using set_alist_update[of k v al] by (auto simp: list_all_iff)

lemma area_ratio_error:
  "area_ratio_of g = Inl e \<Longrightarrow> e = AttributeError ''get'' \<and> g = Null"
  by (simp add: area_ratio_of_def split: entry.splits)






lemma semantic_spec_role: "semantic_role (semantic_spec r role v rh fs) = Some role"
  by (simp add: semantic_spec_def Let_def split: pyval.splits)

lemma semantic_step_result:
  assumes "semantic_step cfg lay r m acc item = Inr acc'"
  shows "case semantic_key m item of
           None \<Rightarrow> fst acc' = fst acc
         | Some k \<Rightarrow> \<exists>rh fs. fst acc' =
             AList.update k (semantic_spec r (fst item) (snd item) rh fs) (fst acc)"
  using assms
  by (auto simp: semantic_step_def semantic_key_def Let_def
      split: if_splits list.splits option.splits sum.splits) blast+

lemma semantic_step_error:
  assumes "semantic_step cfg lay r m acc item = Inl e"
  shows "e = AttributeError ''get'' \<and>
         (\<exists>sl rest. map_of m (fst item) = Some (sl # rest) \<and> slot_geometry sl = Null)"
  using assms
  by (auto simp: semantic_step_def Let_def dest: area_ratio_error
      split: if_splits list.splits option.splits sum.splits)


lemma semantic_loop_error:
  "semantic_loop cfg lay r m acc content = Inl e \<Longrightarrow>
   e = AttributeError ''get'' \<and>
   (\<exists>role sl rest. map_of m role = Some (sl # rest) \<and> slot_geometry sl = Null)"
proof (induction content arbitrary: acc)
  case Nil
  then show ?case by simp
next
  case (Cons item rest)
  show ?case
  proof (cases "semantic_step cfg lay r m acc item")
    case (Inl e')
    with Cons.prems have "e' = e" by simp
    with Inl semantic_step_error[of cfg lay r m acc item e] show ?thesis by blast
  next
    case (Inr acc')
    with Cons.prems have "semantic_loop cfg lay r m acc' rest = Inl e" by simp
    from Cons.IH[OF this] show ?thesis .
  qed
qed


lemma semantic_loop_invariant:
  assumes "semantic_loop cfg lay r m acc content = Inr res"
    and "list_all P (fst acc)"
    and "\<And>item k rh fs. item \<in> set content \<Longrightarrow> semantic_key m item = Some k \<Longrightarrow>
           P (k, semantic_spec r (fst item) (snd item) rh fs)"
  shows "list_all P (fst res)"
  using assms
proof (induction content arbitrary: acc)
  case Nil
  then show ?case by simp
next
  case (Cons item rest)
  from Cons.prems(1) obtain acc' where s: "semantic_step cfg lay r m acc item = Inr acc'"
      and l: "semantic_loop cfg lay r m acc' rest = Inr res"
    by (auto split: sum.splits)
  have "list_all P (fst acc')"
  proof (cases "semantic_key m item")
    case None
    with semantic_step_result[OF s] Cons.prems(2) show ?thesis by simp
  next
    case (Some k)
    with semantic_step_result[OF s] obtain rh fs where
      u: "fst acc' = AList.update k (semantic_spec r (fst item) (snd item) rh fs) (fst acc)"
      by auto
    have "P (k, semantic_spec r (fst item) (snd item) rh fs)"
      using Cons.prems(3)[of item k rh fs] Some by simp
    with u Cons.prems(2) show ?thesis by (simp add: list_all_alist_update)
  qed
  moreover have "\<And>it k rh fs. it \<in> set rest \<Longrightarrow> semantic_key m it = Some k \<Longrightarrow>
           P (k, semantic_spec r (fst it) (snd it) rh fs)"
    using Cons.prems(3) by simp
  ultimately show ?case using Cons.IH[OF l] by blast
qed

























lemma example_semantic_content:
  "beautify_semantic_content default_config (content_items example_slide) example_layout
     ''CONTENT'' (slide_mapping example_slide) =
   Inr ([(''0'', \<lparr>spec_runs = Some [\<lparr>run_text = ''Big'', bold = True, italic = False\<rparr>,
                                     \<lparr>run_text = '' Launch'', bold = False, italic = False\<rparr>],
                   spec_bullets = None, font_size = None, alignment = Some ''CENTER'',
                   semantic_role = Some ''title'', vertical_anchor = None\<rparr>)],
        [SkippingImageQuery])"
  by code_simp









section \<open>The image query\<close>

lemma semantic_step_fst:
  "returned (semantic_step cfg lay r m (styled, lg) item)
     = returned (semantic_step cfg lay r m (styled, lg') item)"
  by (simp add: semantic_step_def Let_def returned_def split: list.splits option.splits sum.splits)

lemma semantic_step_image_query:
  "fst item = ''image_query'' \<Longrightarrow>
   semantic_step cfg lay r m acc item = Inr (fst acc, snd acc @ [SkippingImageQuery])"
  by (simp add: semantic_step_def Let_def)

lemma semantic_loop_fst:
  "fst acc = fst acc' \<Longrightarrow>
   returned (semantic_loop cfg lay r m acc content)
     = returned (semantic_loop cfg lay r m acc' content)"
proof (induction content arbitrary: acc acc')
  case Nil
  then show ?case by simp
next
  case (Cons item rest)
  have e: "returned (semantic_step cfg lay r m acc item)
      = returned (semantic_step cfg lay r m acc' item)"
    using Cons.prems semantic_step_fst[of cfg lay r m "fst acc" "snd acc" item "snd acc'"]
    by (metis prod.collapse)
  show ?case
  proof (cases "semantic_step cfg lay r m acc item")
    case (Inl err)
    with e have "semantic_step cfg lay r m acc' item = Inl err"
      by (cases "semantic_step cfg lay r m acc' item") simp_all
    with Inl show ?thesis by simp
  next
    case (Inr a)
    with e obtain a' where a': "semantic_step cfg lay r m acc' item = Inr a'" and "fst a = fst a'"
      by (cases "semantic_step cfg lay r m acc' item") simp_all
    from Cons.IH[OF this(2)] Inr a' show ?thesis by simp
  qed
qed

lemma semantic_loop_filter:
  "returned (semantic_loop cfg lay r m acc content)
     = returned (semantic_loop cfg lay r m acc (filter (\<lambda>it. fst it \<noteq> ''image_query'') content))"
proof (induction content arbitrary: acc)
  case Nil
  then show ?case by simp
next
  case (Cons item rest)
  show ?case
  proof (cases "fst item = ''image_query''")
    case True
    have "returned (semantic_loop cfg lay r m (fst acc, snd acc @ [SkippingImageQuery]) rest)
        = returned (semantic_loop cfg lay r m acc rest)"
      by (rule semantic_loop_fst) simp
    with Cons.IH[of acc] True show ?thesis by (simp add: semantic_step_image_query)
  next
    case False
    then show ?thesis
      by (cases "semantic_step cfg lay r m acc item") (simp_all add: Cons.IH)
  qed
qed

lemma semantic_key_not_image_query:
  "semantic_key m item = Some k \<Longrightarrow> fst item \<noteq> ''image_query''"
  by (auto simp: semantic_key_def split: if_splits)

lemma semantic_loop_total:
  assumes "list_all (\<lambda>e. slots_have_geometry (snd e)) m"
  shows "\<not> isl (semantic_loop cfg lay r m acc content)"
proof
  assume "isl (semantic_loop cfg lay r m acc content)"
  then obtain e where "semantic_loop cfg lay r m acc content = Inl e"
    by (cases "semantic_loop cfg lay r m acc content") simp_all
  from semantic_loop_error[OF this] obtain role s rest where
    m: "map_of m role = Some (s # rest)" and g: "slot_geometry s = Null" by blast
  from m have "(role, s # rest) \<in> set m" by (rule map_of_SomeD)
  moreover from g have "\<not> slots_have_geometry (snd (role, s # rest))"
    by (simp add: slots_have_geometry_def)
  ultimately show False using assms unfolding list_all_iff by blast
qed

text \<open>
  Claim C10. When \<open>_beautify_semantic_content\<close> returns, the styled content has no
  specification with the semantic role \<open>image_query\<close>; it returns whenever no mapped
  slot has a geometry that is \<open>None\<close>. Its outcome, the exception or the styled content,
  is that of the same items without those under the key \<open>image_query\<close>: their text
  reaches no specification. The semantic path of the Injector leaves the slide as it is
  for a specification whose semantic role is \<open>image_query\<close>.
\<close>

theorem image_query_dropped:
  "(beautify_semantic_content cfg content lay r m = Inr res \<longrightarrow>
      list_all (\<lambda>e. semantic_role (snd e) \<noteq> Some ''image_query'') (fst res)) \<and>
   (list_all (\<lambda>e. slots_have_geometry (snd e)) m \<longrightarrow>
      \<not> isl (beautify_semantic_content cfg content lay r m)) \<and>
   returned (beautify_semantic_content cfg content lay r m)
     = returned (beautify_semantic_content cfg (filter (\<lambda>it. fst it \<noteq> ''image_query'') content) lay r m) \<and>
   (semantic_role (snd item) = Some ''image_query'' \<longrightarrow>
      render_semantic_field cfg has_background sld item = sld)"
proof (intro conjI impI)
  assume a: "beautify_semantic_content cfg content lay r m = Inr res"
  show "list_all (\<lambda>e. semantic_role (snd e) \<noteq> Some ''image_query'') (fst res)"
  proof (rule semantic_loop_invariant[OF a[unfolded beautify_semantic_content_def]])
    show "list_all (\<lambda>e. semantic_role (snd e) \<noteq> Some ''image_query'') (fst ([], []))" by simp
  next
    fix it k rh fs
    assume "it \<in> set content" and "semantic_key m it = Some k"
    then show "semantic_role (snd (k, semantic_spec r (fst it) (snd it) rh fs)) \<noteq> Some ''image_query''"
      using semantic_key_not_image_query[of m it k] by (simp add: semantic_spec_role)
  qed
next
  assume "list_all (\<lambda>e. slots_have_geometry (snd e)) m"
  then show "\<not> isl (beautify_semantic_content cfg content lay r m)"
    unfolding beautify_semantic_content_def by (rule semantic_loop_total)
next
  show "returned (beautify_semantic_content cfg content lay r m)
     = returned (beautify_semantic_content cfg (filter (\<lambda>it. fst it \<noteq> ''image_query'') content) lay r m)"
    unfolding beautify_semantic_content_def by (rule semantic_loop_filter)
next
  assume "semantic_role (snd item) = Some ''image_query''"
  then show "render_semantic_field cfg has_background sld item = sld"
    by (simp add: render_semantic_field_def)
qed

text \<open>
  The content of the example slide, a title and an image query, gives one specification,
  for the title. A specification with text and the role \<open>image_query\<close> leaves the
  placeholder as it is; the same specification with the role \<open>body\<close> is rendered.
\<close>

theorem image_query_dropped_witness:
  "beautify_semantic_content default_config (content_items example_slide) example_layout
     ''CONTENT'' (slide_mapping example_slide) =
   Inr ([(''0'', \<lparr>spec_runs = Some [\<lparr>run_text = ''Big'', bold = True, italic = False\<rparr>,
                                     \<lparr>run_text = '' Launch'', bold = False, italic = False\<rparr>],
                   spec_bullets = None, font_size = None, alignment = Some ''CENTER'',
                   semantic_role = Some ''title'', vertical_anchor = None\<rparr>)],
        [SkippingImageQuery]) \<and>
   content_items example_slide = [(''title'', PStr ''**Big** Launch''),
                                  (''image_query'', PStr ''a rocket'')] \<and>
   list_all (\<lambda>e. slots_have_geometry (snd e)) (slide_mapping example_slide) \<and>
   \<not> isl (beautify_semantic_content default_config (content_items example_slide) example_layout
     ''CONTENT'' (slide_mapping example_slide)) \<and>
   semantic_role (snd (''1'', image_field)) = Some ''image_query'' \<and>
   render_semantic_field default_config False [prompt_placeholder] (''1'', image_field)
     = [prompt_placeholder] \<and>
   render_semantic_field default_config False [prompt_placeholder]
       (''1'', image_field\<lparr>semantic_role := Some ''body''\<rparr>)
     \<noteq> [prompt_placeholder]"
proof -
  have a: "semantic_role (snd (''1'', image_field)) = Some ''image_query''"
    by (simp add: image_field_def)
  have b: "render_semantic_field default_config False [prompt_placeholder]
       (''1'', image_field\<lparr>semantic_role := Some ''body''\<rparr>) \<noteq> [prompt_placeholder]"
    by code_simp
  have c: "content_items example_slide = [(''title'', PStr ''**Big** Launch''),
                                  (''image_query'', PStr ''a rocket'')]"
    by (simp add: content_items_def example_slide_def)
  have d: "list_all (\<lambda>e. slots_have_geometry (snd e)) (slide_mapping example_slide)"
    by (simp add: slide_mapping_def example_slide_def slots_have_geometry_def)
  note t = image_query_dropped[where cfg = default_config
      and content = "content_items example_slide" and lay = example_layout and r = "''CONTENT''"
      and m = "slide_mapping example_slide" and item = "(''1'', image_field)"
      and has_background = False and sld = "[prompt_placeholder]"]
  from t d have e: "\<not> isl (beautify_semantic_content default_config (content_items example_slide)
     example_layout ''CONTENT'' (slide_mapping example_slide))" by blast
  from t a have f: "render_semantic_field default_config False [prompt_placeholder]
     (''1'', image_field) = [prompt_placeholder]" by blast
  from example_semantic_content a b c d e f show ?thesis by blast
qed


section \<open>Clearing a region\<close>

lemma semantic_field_without_content:
  "\<not> has_runs (snd item) \<Longrightarrow> \<not> has_bullets (snd item) \<Longrightarrow>
   render_semantic_field cfg has_background sld item = sld"
  by (simp add: render_semantic_field_def split: option.splits)

text \<open>
  On a new slide a placeholder has no text, so a single field without content leaves the
  text of its region empty on both paths.
\<close>

lemma empty_field_on_new_slide:
  "region_texts (add_slide [prompt_placeholder]) = [Some []]"
  "injected_texts default_config [[prompt_placeholder]] [legacy_styled [(''1'', body_field [])]]
     = Inr [[Some []]]"
  by code_simp+







end
